theory Spec2Isabelle
  imports Complex_Main
begin

section \<open>Data model (strategies.py, backtester.py)\<close>

text \<open>
  Python floats that carry prices and profits are modelled as \<^typ>\<open>real\<close>: the inputs
  are taken to be finite and the arithmetic exact (no rounding, no overflow). In the
  simulator the only division is by a risk floored at \<open>1e-6\<close>, so no operation there can
  turn finite inputs into a non-finite value. A \<open>pd.Timestamp\<close> is its count of
  nanoseconds, an \<^typ>\<open>int\<close>.
\<close>

datatype Side = BUY | SELL

datatype py_error = KeyError | IndexError

record StrategySignal =
  sig_timestamp :: int
  sig_instrument :: string
  sig_strategy :: string
  sig_side :: Side
  sig_entry :: real
  sig_stop :: real
  sig_target :: real
  sig_score :: real
  sig_risk_fraction :: real
  sig_metadata :: "(string \<times> real) list"

record TradeResult =
  entry_time :: int
  exit_time :: int
  entry_price :: real
  exit_price :: real
  side :: Side
  stop_price :: real
  target_price :: real
  pnl :: real
  r_multiple :: real
  bars_held :: int
  exit_reason :: string
  strategy :: string

text \<open>
  One row of the bar frame, with the four columns \<open>_simulate_trades\<close> reads and the number
  of further columns the frame has. A column the frame does not have is \<open>None\<close>:
  \<open>row["close"]\<close> and \<open>row["timestamp"]\<close> then raise \<open>KeyError\<close>, \<open>row.get("high", d)\<close>
  and \<open>row.get("low", d)\<close> return the default. A value that is present is a finite number.
  A NaN cell in a column the frame has is not a missing field (\<open>row.get\<close> returns the NaN,
  not the default); frames with such cells are outside this model.
\<close>

record bar =
  bar_timestamp :: "int option"
  bar_close :: "real option"
  bar_high :: "real option"
  bar_low :: "real option"
  bar_other_columns :: nat

text \<open>The attributes of \<open>EventDrivenBacktester\<close> that the simulation and the metrics read.\<close>

record EventDrivenBacktester =
  initial_equity :: real
  slippage_bps :: real
  commission :: real

text \<open>The dict \<open>open_position\<close> of the loop, with its three keys.\<close>

record position =
  pos_signal :: StrategySignal
  pos_entry_price :: real
  pos_entry_time :: int

text \<open>
  The loop variables of \<open>_simulate_trades\<close>. \<open>pending\<close> is \<open>signals[signal_idx:]\<close>, the
  sorted signals the cursor has not passed yet.
\<close>

record sim_state =
  pending :: "StrategySignal list"
  open_position :: "position option"
  trades :: "TradeResult list"

section \<open>The event-driven simulator (EventDrivenBacktester._simulate_trades)\<close>

text \<open>Python's \<open>round\<close> on a float: to the nearest integer, ties to the even one.\<close>

definition py_round :: "real \<Rightarrow> int" where
  "py_round x =
     (let f = \<lfloor>x\<rfloor>; d = x - of_int f
      in if d < 1 / 2 then f
         else if 1 / 2 < d then f + 1
         else if even f then f else f + 1)"

text \<open>\<open>pd.Timedelta(minutes=1)\<close> in nanoseconds.\<close>

definition minute_ns :: int where
  "minute_ns = 60000000000"

text \<open>
  Lines 109-112, the inner \<open>while\<close>: the signals due at \<open>timestamp\<close> are taken from the
  front of the pending ones. The result is \<open>(triggered_signals, signals[signal_idx:])\<close>
  after the loop.
\<close>

fun queue_signals :: "int \<Rightarrow> StrategySignal list \<Rightarrow> StrategySignal list \<times> StrategySignal list" where
  "queue_signals timestamp [] = ([], [])"
| "queue_signals timestamp (s # ss) =
     (if sig_timestamp s \<le> timestamp
      then (case queue_signals timestamp ss of (triggered, rest) \<Rightarrow> (s # triggered, rest))
      else ([], s # ss))"

text \<open>Lines 114-126: a flat simulator takes the first triggered signal, with slippage on the entry.\<close>

definition enter_position ::
  "real \<Rightarrow> int \<Rightarrow> StrategySignal list \<Rightarrow> position option \<Rightarrow> position option" where
  "enter_position slippage timestamp triggered_signals open_pos =
     (case triggered_signals of
        [] \<Rightarrow> open_pos
      | signal # _ \<Rightarrow>
          (if open_pos = None
           then Some \<lparr>pos_signal = signal,
                      pos_entry_price =
                        (if sig_side signal = BUY then sig_entry signal * (1 + slippage)
                         else sig_entry signal * (1 - slippage)),
                      pos_entry_time = timestamp\<rparr>
           else open_pos))"

text \<open>Lines 108-126 on the loop state.\<close>

definition queue_and_enter :: "EventDrivenBacktester \<Rightarrow> int \<Rightarrow> sim_state \<Rightarrow> sim_state" where
  "queue_and_enter bt timestamp st =
     (case queue_signals timestamp (pending st) of
        (triggered_signals, rest) \<Rightarrow>
          st\<lparr>pending := rest,
             open_position :=
               enter_position (slippage_bps bt / 10000) timestamp triggered_signals (open_position st)\<rparr>)"

text \<open>\<open>row.get(key, default)\<close> on a row whose column \<open>key\<close> holds \<open>v\<close>, or is absent.\<close>

definition row_get :: "real option \<Rightarrow> real \<Rightarrow> real" where
  "row_get v dflt = (case v of None \<Rightarrow> dflt | Some x \<Rightarrow> x)"

text \<open>Lines 141-157: the stop and target checks, \<open>None\<close> when \<open>exit_reason\<close> stays \<open>None\<close>.\<close>

definition check_exit ::
  "Side \<Rightarrow> real \<Rightarrow> real \<Rightarrow> real \<Rightarrow> real \<Rightarrow> real \<Rightarrow> (string \<times> real) option" where
  "check_exit sd low high stop_p target_p slippage =
     (if sd = BUY then
        (if low \<le> stop_p then Some (''stop'', stop_p * (1 - slippage))
         else if high \<ge> target_p then Some (''target'', target_p * (1 - slippage))
         else None)
      else
        (if high \<ge> stop_p then Some (''stop'', stop_p * (1 + slippage))
         else if low \<le> target_p then Some (''target'', target_p * (1 + slippage))
         else None))"

text \<open>Lines 159-161: the forced exit on the last row, \<open>bar_idx == len(df) - 1\<close>.\<close>

definition force_expiry ::
  "nat \<Rightarrow> nat \<Rightarrow> Side \<Rightarrow> real \<Rightarrow> real \<Rightarrow> (string \<times> real) option \<Rightarrow> (string \<times> real) option" where
  "force_expiry n bar_idx sd close_p slippage ex =
     (if ex = None \<and> int bar_idx = int n - 1
      then Some (''expiry'', close_p * (if sd = BUY then 1 - slippage else 1 + slippage))
      else ex)"

text \<open>Lines 166-194: the trade appended on an exit.\<close>

definition close_trade ::
  "EventDrivenBacktester \<Rightarrow> position \<Rightarrow> int \<Rightarrow> string \<Rightarrow> real \<Rightarrow> TradeResult" where
  "close_trade bt pos timestamp reason exit_p =
     (let signal = pos_signal pos;
          sd = sig_side signal;
          entry_p = pos_entry_price pos;
          entry_t = pos_entry_time pos;
          stop_p = sig_stop signal;
          target_p = sig_target signal;
          pnl0 = (if sd = BUY then exit_p - entry_p else entry_p - exit_p);
          pnl1 = pnl0 - commission bt;
          risk = max \<bar>entry_p - stop_p\<bar> (1 / 1000000);
          holding_minutes =
            (if timestamp > entry_t then real_of_int (timestamp - entry_t) / real_of_int minute_ns
             else 0)
      in \<lparr>entry_time = entry_t,
          exit_time = timestamp,
          entry_price = entry_p,
          exit_price = exit_p,
          side = sd,
          stop_price = stop_p,
          target_price = target_p,
          pnl = pnl1,
          r_multiple = pnl1 / risk,
          bars_held = max (py_round holding_minutes) 1,
          exit_reason = reason,
          strategy = sig_strategy signal\<rparr>)"

text \<open>
  Lines 128-196 for one row: nothing to do when flat; otherwise read \<open>close\<close> (the default
  of both \<open>row.get\<close> calls is evaluated first, so a frame without \<open>close\<close> raises),
  run the checks, and either keep the position or append the trade and go flat.
\<close>

definition evaluate_exit ::
  "EventDrivenBacktester \<Rightarrow> nat \<Rightarrow> nat \<Rightarrow> bar \<Rightarrow> int \<Rightarrow> sim_state \<Rightarrow> py_error + sim_state" where
  "evaluate_exit bt n bar_idx row timestamp st =
     (case open_position st of
        None \<Rightarrow> Inr st
      | Some pos \<Rightarrow>
          (case bar_close row of
             None \<Rightarrow> Inl KeyError
           | Some close_p \<Rightarrow>
               (let slippage = slippage_bps bt / 10000;
                    signal = pos_signal pos;
                    high = row_get (bar_high row) close_p;
                    low = row_get (bar_low row) close_p;
                    ex = force_expiry n bar_idx (sig_side signal) close_p slippage
                           (check_exit (sig_side signal) low high (sig_stop signal)
                              (sig_target signal) slippage)
                in case ex of
                     None \<Rightarrow> Inr st
                   | Some (reason, exit_p) \<Rightarrow>
                       Inr (st\<lparr>open_position := None,
                               trades := trades st @ [close_trade bt pos timestamp reason exit_p]\<rparr>))))"

text \<open>The body of the \<open>for\<close> loop, lines 106-196.\<close>

definition process_bar ::
  "EventDrivenBacktester \<Rightarrow> nat \<Rightarrow> nat \<Rightarrow> bar \<Rightarrow> sim_state \<Rightarrow> py_error + sim_state" where
  "process_bar bt n bar_idx row st =
     (case bar_timestamp row of
        None \<Rightarrow> Inl KeyError
      | Some timestamp \<Rightarrow> evaluate_exit bt n bar_idx row timestamp (queue_and_enter bt timestamp st))"

text \<open>The \<open>for\<close> loop over \<open>df.iterrows()\<close>; an exception ends it.\<close>

fun simulate_loop ::
  "EventDrivenBacktester \<Rightarrow> nat \<Rightarrow> (nat \<times> bar) list \<Rightarrow> sim_state \<Rightarrow> py_error + sim_state" where
  "simulate_loop bt n [] st = Inr st"
| "simulate_loop bt n ((bar_idx, row) # rows) st =
     (case process_bar bt n bar_idx row st of
        Inl e \<Rightarrow> Inl e
      | Inr st' \<Rightarrow> simulate_loop bt n rows st')"

text \<open>
  Lines 99-103, the state before the first row: the signals sorted by timestamp
  (\<open>sorted(signals, key=...)\<close> is stable, as \<^const>\<open>sort_key\<close> is), the cursor at 0, no
  position and no trade.
\<close>

definition initial_state :: "StrategySignal list \<Rightarrow> sim_state" where
  "initial_state signals =
     \<lparr>pending = sort_key sig_timestamp signals, open_position = None, trades = []\<rparr>"

text \<open>
  Lines 97-196: the state after the last row. \<open>reset_index(drop=True)\<close> numbers the rows
  from 0.
\<close>

definition simulate_state ::
  "EventDrivenBacktester \<Rightarrow> bar list \<Rightarrow> StrategySignal list \<Rightarrow> py_error + sim_state" where
  "simulate_state bt df signals =
     simulate_loop bt (length df) (enumerate 0 df) (initial_state signals)"

text \<open>
  \<open>df.empty\<close>: pandas calls a frame empty when it has no rows or no columns. The columns
  are those of the frame, the same for every row.
\<close>

definition no_columns :: "bar \<Rightarrow> bool" where
  "no_columns row \<longleftrightarrow>
     bar_timestamp row = None \<and> bar_close row = None \<and> bar_high row = None
     \<and> bar_low row = None \<and> bar_other_columns row = 0"

definition df_empty :: "bar list \<Rightarrow> bool" where
  "df_empty df \<longleftrightarrow> df = [] \<or> list_all no_columns df"

text \<open>\<open>_simulate_trades\<close>, with the early return of lines 94-95.\<close>

definition simulate_trades ::
  "EventDrivenBacktester \<Rightarrow> bar list \<Rightarrow> StrategySignal list \<Rightarrow> py_error + TradeResult list" where
  "simulate_trades bt df signals =
     (if signals = [] \<or> df_empty df then Inr []
      else (case simulate_state bt df signals of
              Inl e \<Rightarrow> Inl e
            | Inr st \<Rightarrow> Inr (trades st)))"

section \<open>The equity curve (EventDrivenBacktester._build_equity_curve)\<close>

text \<open>The frame with the two columns \<open>timestamp\<close> and \<open>equity\<close>.\<close>

record equity_curve =
  ec_timestamp :: "int list"
  ec_equity :: "real list"

text \<open>Lines 204-207: the loop, with \<open>equity\<close>, \<open>timestamps\<close> and \<open>equities\<close> as it updates them.\<close>

fun equity_loop :: "real \<Rightarrow> int list \<Rightarrow> real list \<Rightarrow> TradeResult list \<Rightarrow> int list \<times> real list" where
  "equity_loop equity timestamps equities [] = (timestamps, equities)"
| "equity_loop equity timestamps equities (trade # rest) =
     equity_loop (equity + pnl trade) (timestamps @ [exit_time trade])
       (equities @ [equity + pnl trade]) rest"

definition build_equity_curve :: "EventDrivenBacktester \<Rightarrow> TradeResult list \<Rightarrow> equity_curve" where
  "build_equity_curve bt ledger =
     (case equity_loop (initial_equity bt) [] [] ledger of
        (timestamps, equities) \<Rightarrow> \<lparr>ec_timestamp = timestamps, ec_equity = equities\<rparr>)"

section \<open>Floats that may be infinite or NaN\<close>

text \<open>
  The metrics divide by quantities that can be zero, and numpy then returns \<open>inf\<close>, \<open>-inf\<close>
  or \<open>nan\<close> instead of raising. A metric is therefore a real number or one of these three
  values. The operations follow IEEE 754 on the special values and are exact on the finite
  ones: rounding and overflow are not modelled, and a zero divisor is taken as \<open>+0.0\<close>.
  A result that is finite here can thus be infinite in the code, when it leaves the range
  of a double; a result that is infinite or NaN here is so in the code as well.
\<close>

datatype float64 = Finite real | PosInf | NegInf | NaN

fun isfinite :: "float64 \<Rightarrow> bool" where
  "isfinite (Finite x) = True"
| "isfinite PosInf = False"
| "isfinite NegInf = False"
| "isfinite NaN = False"

fun fneg :: "float64 \<Rightarrow> float64" where
  "fneg (Finite x) = Finite (- x)"
| "fneg PosInf = NegInf"
| "fneg NegInf = PosInf"
| "fneg NaN = NaN"

fun fabs :: "float64 \<Rightarrow> float64" where
  "fabs (Finite x) = Finite \<bar>x\<bar>"
| "fabs PosInf = PosInf"
| "fabs NegInf = PosInf"
| "fabs NaN = NaN"

fun fadd :: "float64 \<Rightarrow> float64 \<Rightarrow> float64" where
  "fadd NaN y = NaN"
| "fadd x NaN = NaN"
| "fadd (Finite a) (Finite b) = Finite (a + b)"
| "fadd PosInf NegInf = NaN"
| "fadd NegInf PosInf = NaN"
| "fadd PosInf y = PosInf"
| "fadd NegInf y = NegInf"
| "fadd (Finite a) y = y"

definition fsub :: "float64 \<Rightarrow> float64 \<Rightarrow> float64" where
  "fsub x y = fadd x (fneg y)"

fun fmul :: "float64 \<Rightarrow> float64 \<Rightarrow> float64" where
  "fmul NaN y = NaN"
| "fmul x NaN = NaN"
| "fmul (Finite a) (Finite b) = Finite (a * b)"
| "fmul (Finite a) y = (if a = 0 then NaN else if 0 < a then y else fneg y)"
| "fmul x (Finite b) = (if b = 0 then NaN else if 0 < b then x else fneg x)"
| "fmul PosInf y = y"
| "fmul NegInf y = fneg y"

fun fdiv :: "float64 \<Rightarrow> float64 \<Rightarrow> float64" where
  "fdiv NaN y = NaN"
| "fdiv x NaN = NaN"
| "fdiv (Finite a) (Finite b) =
     (if b \<noteq> 0 then Finite (a / b)
      else if a = 0 then NaN else if 0 < a then PosInf else NegInf)"
| "fdiv (Finite a) y = Finite 0"
| "fdiv x (Finite b) = (if 0 \<le> b then x else fneg x)"
| "fdiv x y = NaN"

fun fsqrt :: "float64 \<Rightarrow> float64" where
  "fsqrt (Finite x) = (if x < 0 then NaN else Finite (sqrt x))"
| "fsqrt PosInf = PosInf"
| "fsqrt NegInf = NaN"
| "fsqrt NaN = NaN"

text \<open>\<open>x < y\<close> on floats: false as soon as one side is NaN.\<close>

fun flt :: "float64 \<Rightarrow> float64 \<Rightarrow> bool" where
  "flt NaN y = False"
| "flt x NaN = False"
| "flt (Finite a) (Finite b) = (a < b)"
| "flt NegInf NegInf = False"
| "flt NegInf y = True"
| "flt x NegInf = False"
| "flt PosInf y = False"
| "flt x PosInf = True"

text \<open>
  \<open>x ** y\<close> for a finite exponent \<open>y > 0\<close> (the only use is \<open>1 / years\<close>): a negative
  base with a fractional exponent is NaN, with an integral exponent the sign follows the
  parity.
\<close>

fun fpow :: "float64 \<Rightarrow> real \<Rightarrow> float64" where
  "fpow (Finite x) y =
     (if 0 \<le> x then Finite (x powr y)
      else if y = of_int \<lfloor>y\<rfloor>
           then (if even \<lfloor>y\<rfloor> then Finite (\<bar>x\<bar> powr y) else Finite (- (\<bar>x\<bar> powr y)))
           else NaN)"
| "fpow PosInf y = PosInf"
| "fpow NegInf y = (if y = of_int \<lfloor>y\<rfloor> \<and> odd \<lfloor>y\<rfloor> then NegInf else PosInf)"
| "fpow NaN y = NaN"

text \<open>\<open>a.sum()\<close>, \<open>a.mean()\<close>, \<open>a.std(ddof=0)\<close> and \<open>a.min()\<close> of a float array.\<close>

definition np_sum :: "float64 list \<Rightarrow> float64" where
  "np_sum xs = foldl fadd (Finite 0) xs"

definition np_mean :: "float64 list \<Rightarrow> float64" where
  "np_mean xs = fdiv (np_sum xs) (Finite (real (length xs)))"

definition np_std :: "float64 list \<Rightarrow> float64" where
  "np_std xs =
     (let m = np_mean xs
      in fsqrt (np_mean (map (\<lambda>x. fmul (fsub x m) (fsub x m)) xs)))"

fun fmin :: "float64 \<Rightarrow> float64 \<Rightarrow> float64" where
  "fmin NaN y = NaN"
| "fmin x NaN = NaN"
| "fmin x y = (if flt y x then y else x)"

text \<open>\<open>a.min()\<close> of a non-empty array (an empty one raises \<open>ValueError\<close>; no caller passes one).\<close>

fun np_min :: "float64 list \<Rightarrow> float64" where
  "np_min [] = NaN"
| "np_min [x] = x"
| "np_min (x # y # ys) = fmin x (np_min (y # ys))"

text \<open>\<open>np.maximum.accumulate\<close> on finite values: the running maximum.\<close>

fun maximum_accumulate_from :: "real \<Rightarrow> real list \<Rightarrow> real list" where
  "maximum_accumulate_from m [] = []"
| "maximum_accumulate_from m (x # xs) = max m x # maximum_accumulate_from (max m x) xs"

fun maximum_accumulate :: "real list \<Rightarrow> real list" where
  "maximum_accumulate [] = []"
| "maximum_accumulate (x # xs) = x # maximum_accumulate_from x xs"

text \<open>The mean of finite values, as a float: NaN on an empty array.\<close>

definition mean_of :: "real list \<Rightarrow> float64" where
  "mean_of xs = np_mean (map Finite xs)"

section \<open>The metrics (EventDrivenBacktester._compute_metrics)\<close>

record BacktestMetrics =
  cagr :: float64
  sharpe :: float64
  mar :: float64
  max_drawdown :: float64
  win_rate :: float64
  payoff :: float64
  expectancy :: float64
  exposure :: float64
  cvar_95 :: float64

text \<open>A day and the constants \<open>365.25\<close>, \<open>1e-6\<close>, \<open>1e-9\<close> and \<open>0.05\<close> are written as fractions.\<close>

definition day_ns :: int where
  "day_ns = 86400000000000"

text \<open>Lines 219-222. \<open>Timedelta.days\<close> rounds towards minus infinity, as \<open>div\<close> does.\<close>

definition metric_years :: "TradeResult list \<Rightarrow> real" where
  "metric_years ledger =
     max (real_of_int ((exit_time (last ledger) - entry_time (hd ledger)) div day_ns) / (1461 / 4))
         (1 / 1000000)"

definition metric_cagr :: "EventDrivenBacktester \<Rightarrow> TradeResult list \<Rightarrow> real \<Rightarrow> float64" where
  "metric_cagr bt ledger final_equity =
     (if final_equity > 0
      then fsub (fpow (fdiv (Finite final_equity) (Finite (initial_equity bt)))
                   (1 / metric_years ledger))
             (Finite 1)
      else Finite (- 1))"

text \<open>Lines 224-226.\<close>

definition metric_sharpe :: "EventDrivenBacktester \<Rightarrow> TradeResult list \<Rightarrow> float64" where
  "metric_sharpe bt ledger =
     (let returns = map (\<lambda>t. fdiv (Finite (pnl t)) (Finite (initial_equity bt))) ledger;
          returns_std = np_std returns
      in if length returns \<noteq> 0
         then fmul (fdiv (np_mean returns) (fadd returns_std (Finite (1 / 1000000000))))
                (Finite (sqrt (real (length returns))))
         else Finite 0)"

text \<open>Lines 228-230.\<close>

definition metric_max_dd :: "real list \<Rightarrow> float64" where
  "metric_max_dd equity =
     np_min (map (\<lambda>(e, peak). fdiv (Finite (e - peak)) (Finite peak))
               (zip equity (maximum_accumulate equity)))"

text \<open>Line 231.\<close>

definition metric_mar :: "float64 \<Rightarrow> float64 \<Rightarrow> float64" where
  "metric_mar cagr_v max_dd = (if flt max_dd (Finite 0) then fdiv cagr_v (fabs max_dd) else NaN)"

text \<open>Lines 216 and 233-240.\<close>

definition metric_win_rate :: "TradeResult list \<Rightarrow> float64" where
  "metric_win_rate ledger =
     fdiv (Finite (real (length (filter (\<lambda>t. pnl t > 0) ledger)))) (Finite (real (length ledger)))"

definition metric_payoff :: "TradeResult list \<Rightarrow> float64" where
  "metric_payoff ledger =
     (let wins = filter (\<lambda>p. p > 0) (map pnl ledger);
          losses = filter (\<lambda>p. \<not> p > 0) (map pnl ledger)
      in if wins \<noteq> [] \<and> losses \<noteq> [] then fdiv (mean_of wins) (fabs (mean_of losses))
         else if wins \<noteq> [] then mean_of wins
         else Finite 0)"

text \<open>Lines 242-247.\<close>

definition metric_exposure :: "TradeResult list \<Rightarrow> float64" where
  "metric_exposure ledger =
     (let time_in_market = real_of_int (sum_list (map bars_held ledger));
          total_minutes =
            max (real_of_int (exit_time (last ledger) - entry_time (hd ledger)) / real_of_int minute_ns)
                time_in_market
      in if total_minutes \<noteq> 0 then fdiv (Finite time_in_market) (Finite total_minutes)
         else Finite 0)"

text \<open>Line 250: \<open>int(max(len(sorted_returns) * 0.05, 1))\<close>; \<open>int\<close> truncates.\<close>

definition cvar_cutoff :: "nat \<Rightarrow> int" where
  "cvar_cutoff n = \<lfloor>max (real n * (5 / 100)) 1\<rfloor>"

text \<open>Lines 249-251.\<close>

definition metric_cvar :: "TradeResult list \<Rightarrow> float64" where
  "metric_cvar ledger =
     (let sorted_returns = sort (map r_multiple ledger);
          cutoff = cvar_cutoff (length sorted_returns)
      in if cutoff > 0 then mean_of (take (nat cutoff) sorted_returns)
         else Finite (hd sorted_returns))"

text \<open>
  \<open>_compute_metrics\<close>. \<open>equity_curve["equity"].iloc[-1]\<close> raises \<open>IndexError\<close> on an empty
  curve. Lines 253-263 coerce \<open>mar\<close> and \<open>payoff\<close> with \<open>np.isfinite\<close> and pass the other
  seven values on.
\<close>

definition compute_metrics ::
  "EventDrivenBacktester \<Rightarrow> TradeResult list \<Rightarrow> equity_curve \<Rightarrow> py_error + BacktestMetrics" where
  "compute_metrics bt ledger curve =
     (if ledger = [] then
        Inr \<lparr>cagr = Finite 0, sharpe = Finite 0, mar = Finite 0, max_drawdown = Finite 0,
             win_rate = Finite 0, payoff = Finite 0, expectancy = Finite 0,
             exposure = Finite 0, cvar_95 = Finite 0\<rparr>
      else if ec_equity curve = [] then Inl IndexError
      else
        (let final_equity = last (ec_equity curve);
             cagr_v = metric_cagr bt ledger final_equity;
             max_dd = metric_max_dd (ec_equity curve);
             mar_v = metric_mar cagr_v max_dd;
             payoff_v = metric_payoff ledger
         in Inr \<lparr>cagr = cagr_v,
                 sharpe = metric_sharpe bt ledger,
                 mar = (if isfinite mar_v then mar_v else Finite 0),
                 max_drawdown = max_dd,
                 win_rate = metric_win_rate ledger,
                 payoff = (if isfinite payoff_v then payoff_v else Finite 0),
                 expectancy = mean_of (map pnl ledger),
                 exposure = metric_exposure ledger,
                 cvar_95 = metric_cvar ledger\<rparr>))"

section \<open>The vectorized evaluator (VectorizedBacktester.run)\<close>

text \<open>
  A row of the labelled feature frame. \<open>future_return\<close> and \<open>label\<close> are \<open>None\<close> where the
  frame holds NaN (the rows line 277 drops); \<open>close\<close> and \<open>sma20\<close> are \<open>None\<close> when the frame
  has no such column. A value that is present is finite, and a label is a whole number, as
  \<open>_add_labels\<close> writes it, so that \<open>int(row["label"])\<close> is the label itself.
\<close>

record feature_row =
  fr_timestamp :: int
  fr_close :: "real option"
  fr_sma20 :: "real option"
  fr_future_return :: "real option"
  fr_label :: "int option"

text \<open>The frame: its rows, and whether it has a \<open>timestamp\<close> column at all.\<close>

record feature_frame =
  ff_has_timestamp :: bool
  ff_rows :: "feature_row list"

text \<open>A row that line 277 keeps: both values are known.\<close>

record labelled_row =
  lr_timestamp :: int
  lr_close :: "real option"
  lr_sma20 :: "real option"
  lr_future_return :: real
  lr_label :: int

text \<open>Lines 277-278: \<open>dropna(subset=["future_return", "label"])\<close>, then \<open>reset_index\<close>.\<close>

definition dropna :: "feature_row list \<Rightarrow> labelled_row list" where
  "dropna rows =
     List.map_filter
       (\<lambda>r. case (fr_future_return r, fr_label r) of
                (Some f, Some l) \<Rightarrow>
                  Some \<lparr>lr_timestamp = fr_timestamp r, lr_close = fr_close r,
                        lr_sma20 = fr_sma20 r, lr_future_return = f, lr_label = l\<rparr>
              | _ \<Rightarrow> None)
       rows"

text \<open>
  Lines 279-282: the \<open>timestamp\<close> column, or else the index \<open>0, 1, ...\<close> of the cleaned
  frame read as nanoseconds.
\<close>

definition frame_timestamps :: "bool \<Rightarrow> labelled_row list \<Rightarrow> int list" where
  "frame_timestamps has_timestamp rows =
     (if has_timestamp then map lr_timestamp rows else map int [0..<length rows])"

text \<open>\<open>s.iloc[i]\<close>: a negative position counts from the end, one out of range raises.\<close>

definition iloc :: "'a list \<Rightarrow> int \<Rightarrow> py_error + 'a" where
  "iloc xs i =
     (if 0 \<le> i \<and> i < int (length xs) then Inr (xs ! nat i)
      else if - int (length xs) \<le> i \<and> i < 0 then Inr (xs ! nat (int (length xs) + i))
      else Inl IndexError)"

text \<open>Lines 288-320, the body of the loop: no trade for label 0, one trade otherwise.\<close>

definition vector_trade ::
  "int \<Rightarrow> int list \<Rightarrow> nat \<Rightarrow> nat \<Rightarrow> labelled_row \<Rightarrow> py_error + TradeResult option" where
  "vector_trade horizon timestamps n idx row =
     (if lr_label row = 0 then Inr None
      else
        (case lr_close row of
           None \<Rightarrow> Inl KeyError
         | Some close_p \<Rightarrow>
             (let sd = (if lr_label row = 1 then BUY else SELL);
                  entry_p = close_p;
                  exit_p = close_p * (1 + lr_future_return row);
                  exit_index = min (int idx + horizon) (int n - 1)
              in case iloc timestamps exit_index of
                   Inl e \<Rightarrow> Inl e
                 | Inr exit_t \<Rightarrow>
                     (let pnl_v = (if sd = BUY then exit_p - entry_p else entry_p - exit_p);
                          risk = max \<bar>close_p - row_get (lr_sma20 row) close_p\<bar> (1 / 1000000)
                      in case iloc timestamps (int idx) of
                           Inl e \<Rightarrow> Inl e
                         | Inr entry_t \<Rightarrow>
                             Inr (Some
                               \<lparr>entry_time = entry_t,
                                exit_time = exit_t,
                                entry_price = entry_p,
                                exit_price = exit_p,
                                side = sd,
                                stop_price = (if sd = BUY then close_p - risk else close_p + risk),
                                target_price = exit_p,
                                pnl = pnl_v,
                                r_multiple = pnl_v / risk,
                                bars_held = horizon,
                                exit_reason = ''vector'',
                                strategy = ''VECTOR_LABEL''\<rparr>)))))"

text \<open>The \<open>for\<close> loop of lines 287-320 over \<open>features.iterrows()\<close>.\<close>

fun vector_loop ::
  "int \<Rightarrow> int list \<Rightarrow> nat \<Rightarrow> (nat \<times> labelled_row) list \<Rightarrow> TradeResult list
     \<Rightarrow> py_error + TradeResult list" where
  "vector_loop horizon timestamps n [] ledger = Inr ledger"
| "vector_loop horizon timestamps n ((idx, row) # rest) ledger =
     (case vector_trade horizon timestamps n idx row of
        Inl e \<Rightarrow> Inl e
      | Inr None \<Rightarrow> vector_loop horizon timestamps n rest ledger
      | Inr (Some trade) \<Rightarrow> vector_loop horizon timestamps n rest (ledger @ [trade]))"

text \<open>
  Lines 277-320 for a frame that has the columns \<open>label\<close> and \<open>future_return\<close>; \<open>horizon\<close> is
  \<open>pipeline.config.label.horizon\<close>, 12 by default.
\<close>

definition vectorized_trades :: "int \<Rightarrow> feature_frame \<Rightarrow> py_error + TradeResult list" where
  "vectorized_trades horizon frame =
     (let features = dropna (ff_rows frame);
          timestamps = frame_timestamps (ff_has_timestamp frame) features
      in vector_loop horizon timestamps (length features) (enumerate 0 features) [])"

text \<open>
  Lines 322-325: the report, with the curve and the metrics of an event-driven backtester
  built with its defaults.
\<close>

definition vectorized_run ::
  "int \<Rightarrow> feature_frame \<Rightarrow> py_error + (TradeResult list \<times> BacktestMetrics \<times> equity_curve)" where
  "vectorized_run horizon frame =
     (case vectorized_trades horizon frame of
        Inl e \<Rightarrow> Inl e
      | Inr ledger \<Rightarrow>
          (let bt = \<lparr>initial_equity = 100000, slippage_bps = 5, commission = 0\<rparr>;
               curve = build_equity_curve bt ledger
           in case compute_metrics bt ledger curve of
                Inl e \<Rightarrow> Inl e
              | Inr metrics \<Rightarrow> Inr (ledger, metrics, curve)))"

section \<open>Reference definitions\<close>

text \<open>
  Two definitions that are not taken from the code but from the words of a claim, each to
  be compared with what the code computes.

  The first writes a missing \<open>high\<close> or \<open>low\<close> of a row out as the row's close.
\<close>

definition close_only_fill :: "bar \<Rightarrow> bar" where
  "close_only_fill row =
     (case bar_close row of
        None \<Rightarrow> row
      | Some c \<Rightarrow> row\<lparr>bar_high := Some (row_get (bar_high row) c),
                       bar_low := Some (row_get (bar_low row) c)\<rparr>)"

text \<open>
  The second is the tail mean as the specification words it: the mean of the worst
  \<open>max(round(5% of count), 1)\<close> R-multiples, with Python's \<open>round\<close>.
\<close>

definition spec_cvar_95 :: "TradeResult list \<Rightarrow> float64" where
  "spec_cvar_95 ledger =
     mean_of (take (nat (max (py_round (real (length ledger) * (5 / 100))) 1))
                (sort (map r_multiple ledger)))"

section \<open>The invariant of the simulation loop\<close>

text \<open>
  What holds of the loop state once the rows with the timestamps \<open>T\<close> are processed: the
  pending signals are sorted and all later than \<open>T\<close>; every trade was closed at a time of
  \<open>T\<close>, not before its entry; the ledger is ordered by exit time and each trade ends
  before the next one starts; and an open position was entered at a time of \<open>T\<close>, after
  every trade of the ledger was closed.
\<close>

definition ledger_invariant :: "int set \<Rightarrow> sim_state \<Rightarrow> bool" where
  "ledger_invariant T st \<longleftrightarrow>
     sorted (map sig_timestamp (pending st))
   \<and> (\<forall>s\<in>set (pending st). \<forall>u\<in>T. u < sig_timestamp s)
   \<and> (\<forall>tr\<in>set (trades st). exit_time tr \<in> T \<and> entry_time tr \<le> exit_time tr)
   \<and> sorted (map exit_time (trades st))
   \<and> sorted_wrt (\<lambda>a b. exit_time a < entry_time b) (trades st)
   \<and> (\<forall>pos. open_position st = Some pos \<longrightarrow>
         pos_entry_time pos \<in> T \<and> (\<forall>tr\<in>set (trades st). exit_time tr < pos_entry_time pos))"

section \<open>Concrete inputs\<close>

text \<open>The defaults of \<open>EventDrivenBacktester.__init__\<close>: 100000 of equity, 5 bps, no commission.\<close>

definition default_backtester :: EventDrivenBacktester where
  "default_backtester = \<lparr>initial_equity = 100000, slippage_bps = 5, commission = 0\<rparr>"

text \<open>A backtester with a chosen equity, no slippage and no commission.\<close>

definition frictionless_backtester :: "real \<Rightarrow> EventDrivenBacktester" where
  "frictionless_backtester equity = \<lparr>initial_equity = equity, slippage_bps = 0, commission = 0\<rparr>"

text \<open>A backtester whose slippage is negative, a price improvement of 200 bps.\<close>

definition price_improving_backtester :: EventDrivenBacktester where
  "price_improving_backtester = \<lparr>initial_equity = 100000, slippage_bps = - 200, commission = 0\<rparr>"

text \<open>A signal with stop 99 and target 105 around an entry of 100, on either side.\<close>

definition signal_99_105 :: "Side \<Rightarrow> int \<Rightarrow> StrategySignal" where
  "signal_99_105 sd t =
     \<lparr>sig_timestamp = t, sig_instrument = ''TEST'', sig_strategy = ''ORB15'', sig_side = sd,
      sig_entry = 100, sig_stop = (if sd = BUY then 99 else 105),
      sig_target = (if sd = BUY then 105 else 99), sig_score = 1,
      sig_risk_fraction = 1 / 400, sig_metadata = []\<rparr>"

text \<open>A BUY at 200 with its stop at 100: stopped out without slippage, it loses exactly 100.\<close>

definition stop_100_signal :: StrategySignal where
  "stop_100_signal =
     \<lparr>sig_timestamp = 0, sig_instrument = ''TEST'', sig_strategy = ''ORB15'', sig_side = BUY,
      sig_entry = 200, sig_stop = 100, sig_target = 400, sig_score = 1,
      sig_risk_fraction = 1 / 400, sig_metadata = []\<rparr>"

text \<open>A backtester with a slippage of 78.125 bps, which is \<open>1 / 128\<close> of the price.\<close>

definition wide_slippage_backtester :: EventDrivenBacktester where
  "wide_slippage_backtester = \<lparr>initial_equity = 100000, slippage_bps = 625 / 8, commission = 0\<rparr>"

text \<open>
  Signals at the edge of the signal type: a SELL with an entry price of 0; a BUY whose stop
  lies above its entry, as the signals of the VRB strategy have it, at 128.5 for an entry
  of 128; and a BUY of the same shape whose stop is \<open>1e-6\<close> above an entry of \<open>1e-6\<close>.
\<close>

definition zero_entry_signal :: StrategySignal where
  "zero_entry_signal =
     \<lparr>sig_timestamp = 0, sig_instrument = ''TEST'', sig_strategy = ''VRB'', sig_side = SELL,
      sig_entry = 0, sig_stop = 1, sig_target = - 1, sig_score = 1,
      sig_risk_fraction = 1 / 400, sig_metadata = []\<rparr>"

definition stop_above_entry_signal :: StrategySignal where
  "stop_above_entry_signal =
     \<lparr>sig_timestamp = 0, sig_instrument = ''TEST'', sig_strategy = ''VRB'', sig_side = BUY,
      sig_entry = 128, sig_stop = 257 / 2, sig_target = 140, sig_score = 1,
      sig_risk_fraction = 1 / 400, sig_metadata = []\<rparr>"

definition floor_risk_signal :: StrategySignal where
  "floor_risk_signal =
     \<lparr>sig_timestamp = 0, sig_instrument = ''TEST'', sig_strategy = ''VRB'', sig_side = BUY,
      sig_entry = 1 / 1000000, sig_stop = 2 / 1000000, sig_target = 3 / 1000000, sig_score = 1,
      sig_risk_fraction = 1 / 400, sig_metadata = []\<rparr>"

text \<open>A full row (timestamp, close, high, low), and a row of a frame without \<open>high\<close> and \<open>low\<close>.\<close>

definition ohlc_bar :: "int \<Rightarrow> real \<Rightarrow> real \<Rightarrow> real \<Rightarrow> bar" where
  "ohlc_bar t c h l =
     \<lparr>bar_timestamp = Some t, bar_close = Some c, bar_high = Some h, bar_low = Some l,
      bar_other_columns = 0\<rparr>"

definition close_only_bar :: "int \<Rightarrow> real \<Rightarrow> bar" where
  "close_only_bar t c =
     \<lparr>bar_timestamp = Some t, bar_close = Some c, bar_high = None, bar_low = None,
      bar_other_columns = 0\<rparr>"

text \<open>A closed trade with a given profit, R-multiple and time (entry and exit on one row).\<close>

definition trade_with :: "real \<Rightarrow> real \<Rightarrow> int \<Rightarrow> TradeResult" where
  "trade_with p r t =
     \<lparr>entry_time = t, exit_time = t, entry_price = 100, exit_price = 100 + p, side = BUY,
      stop_price = 99, target_price = 105, pnl = p, r_multiple = r, bars_held = 1,
      exit_reason = ''target'', strategy = ''ORB15''\<rparr>"

text \<open>The ledger whose trades have the given whole numbers as profit and as R-multiple.\<close>

definition ledger_of_r :: "int list \<Rightarrow> TradeResult list" where
  "ledger_of_r rs = map (\<lambda>k. trade_with (real_of_int k) (real_of_int k) 0) rs"




section \<open>The loop body, step by step\<close>

lemma close_trade_fields:
  "entry_time (close_trade bt pos ts r p) = pos_entry_time pos"
  "exit_time (close_trade bt pos ts r p) = ts"
  "entry_price (close_trade bt pos ts r p) = pos_entry_price pos"
  "exit_price (close_trade bt pos ts r p) = p"
  "side (close_trade bt pos ts r p) = sig_side (pos_signal pos)"
  "stop_price (close_trade bt pos ts r p) = sig_stop (pos_signal pos)"
  "target_price (close_trade bt pos ts r p) = sig_target (pos_signal pos)"
  "exit_reason (close_trade bt pos ts r p) = r"
  "strategy (close_trade bt pos ts r p) = sig_strategy (pos_signal pos)"
  by (simp_all add: close_trade_def Let_def)

lemma trades_queue_and_enter: "trades (queue_and_enter bt ts st) = trades st"
  by (simp add: queue_and_enter_def split: prod.splits)

lemma trades_initial_state: "trades (initial_state sigs) = []"
  by (simp add: initial_state_def)

lemma slippage_default: "slippage_bps default_backtester = 5"
  by (simp add: default_backtester_def)

lemma queue_signals_eq:
  "queue_signals t ps =
     (takeWhile (\<lambda>s. sig_timestamp s \<le> t) ps, dropWhile (\<lambda>s. sig_timestamp s \<le> t) ps)"
  by (induction ps) simp_all

lemma queue_and_enter_fields:
  "pending (queue_and_enter bt t st) = dropWhile (\<lambda>s. sig_timestamp s \<le> t) (pending st)"
  "open_position (queue_and_enter bt t st) =
     enter_position (slippage_bps bt / 10000) t
       (takeWhile (\<lambda>s. sig_timestamp s \<le> t) (pending st)) (open_position st)"
  by (simp_all add: queue_and_enter_def queue_signals_eq)

lemma enter_position_cases:
  assumes "enter_position sl t trig op = Some pos"
  shows "op = Some pos \<or>
     (\<exists>s\<in>set trig. op = None \<and> pos_signal pos = s \<and> pos_entry_time pos = t
        \<and> pos_entry_price pos = sig_entry s * (if sig_side s = BUY then 1 + sl else 1 - sl))"
  using assms by (auto simp: enter_position_def split: list.splits if_splits)

lemma queue_and_enter_first:
  "queue_and_enter default_backtester 0 (initial_state [signal_99_105 sd 0]) =
   \<lparr>pending = [],
    open_position = Some \<lparr>pos_signal = signal_99_105 sd 0,
       pos_entry_price = (if sd = BUY then 100 * (1 + 5 / 10000) else 100 * (1 - 5 / 10000)),
       pos_entry_time = 0\<rparr>,
    trades = []\<rparr>"
  by (simp add: queue_and_enter_def initial_state_def default_backtester_def
      enter_position_def signal_99_105_def)

lemma process_bar_open:
  assumes "bar_timestamp row = Some ts" and "bar_close row = Some c"
    and "open_position (queue_and_enter bt ts st) = Some pos"
  shows "process_bar bt n i row st =
     (case force_expiry n i (sig_side (pos_signal pos)) c (slippage_bps bt / 10000)
             (check_exit (sig_side (pos_signal pos)) (row_get (bar_low row) c)
                (row_get (bar_high row) c) (sig_stop (pos_signal pos))
                (sig_target (pos_signal pos)) (slippage_bps bt / 10000)) of
        None \<Rightarrow> Inr (queue_and_enter bt ts st)
      | Some (reason, exit_p) \<Rightarrow>
          Inr ((queue_and_enter bt ts st)\<lparr>open_position := None,
                 trades := trades st @ [close_trade bt pos ts reason exit_p]\<rparr>))"
  using assms by (simp add: process_bar_def evaluate_exit_def Let_def trades_queue_and_enter)

lemma process_bar_flat:
  assumes "bar_timestamp row = Some ts" and "open_position (queue_and_enter bt ts st) = None"
  shows "process_bar bt n i row st = Inr (queue_and_enter bt ts st)"
  using assms by (simp add: process_bar_def evaluate_exit_def)

lemma process_bar_cases:
  assumes "process_bar bt n i row st = Inr st'"
  obtains (keep) ts where "bar_timestamp row = Some ts" and "st' = queue_and_enter bt ts st"
  | (exit) ts pos reason p where "bar_timestamp row = Some ts"
      and "open_position (queue_and_enter bt ts st) = Some pos"
      and "st' = (queue_and_enter bt ts st)\<lparr>open_position := None,
                   trades := trades st @ [close_trade bt pos ts reason p]\<rparr>"
proof -
  from assms obtain ts where ts: "bar_timestamp row = Some ts"
    by (auto simp: process_bar_def split: option.splits)
  show thesis
  proof (cases "open_position (queue_and_enter bt ts st)")
    case None
    with assms ts have "st' = queue_and_enter bt ts st" by (simp add: process_bar_flat)
    with ts show thesis by (rule keep)
  next
    case (Some pos)
    with assms ts obtain c where c: "bar_close row = Some c"
      by (auto simp: process_bar_def evaluate_exit_def split: option.splits)
    from assms show thesis
      unfolding process_bar_open [OF ts c Some]
      by (auto split: option.splits intro: keep [OF ts] exit [OF ts Some])
  qed
qed

lemma simulate_loop_append:
  "simulate_loop bt n (rows @ rows') st =
     (case simulate_loop bt n rows st of Inl e \<Rightarrow> Inl e | Inr st1 \<Rightarrow> simulate_loop bt n rows' st1)"
  by (induction rows arbitrary: st) (auto split: sum.splits)

lemma simulate_loop_invariant:
  assumes "simulate_loop bt n rows st = Inr st'" and "I st"
    and "\<And>i row s s'. I s \<Longrightarrow> process_bar bt n i row s = Inr s' \<Longrightarrow> I s'"
  shows "I st'"
  using assms(1,2)
proof (induction rows arbitrary: st)
  case Nil
  then show ?case by simp
next
  case (Cons x rows)
  obtain i row where x: "x = (i, row)" by (cases x)
  from Cons.prems(1) x obtain s1 where s1: "process_bar bt n i row st = Inr s1"
    and rest: "simulate_loop bt n rows s1 = Inr st'"
    by (auto split: sum.splits)
  from assms(3) [OF Cons.prems(2) s1] have "I s1" .
  with Cons.IH rest show ?case by blast
qed

lemma simulate_state_single:
  "simulate_state bt [row] signals = process_bar bt 1 0 row (initial_state signals)"
  by (simp add: simulate_state_def initial_state_def split: sum.splits)

lemma single_row_ledger:
  assumes "sig_timestamp s \<le> t"
  shows "simulate_trades bt [ohlc_bar t c h l] [s] =
     Inr [case_prod
            (close_trade bt
               \<lparr>pos_signal = s,
                pos_entry_price = (if sig_side s = BUY then sig_entry s * (1 + slippage_bps bt / 10000)
                                   else sig_entry s * (1 - slippage_bps bt / 10000)),
                pos_entry_time = t\<rparr> t)
            (case check_exit (sig_side s) l h (sig_stop s) (sig_target s) (slippage_bps bt / 10000) of
               None \<Rightarrow> (''expiry'', c * (if sig_side s = BUY then 1 - slippage_bps bt / 10000
                                         else 1 + slippage_bps bt / 10000))
             | Some e \<Rightarrow> e)]"
proof -
  let ?pos = "\<lparr>pos_signal = s,
                pos_entry_price = (if sig_side s = BUY then sig_entry s * (1 + slippage_bps bt / 10000)
                                   else sig_entry s * (1 - slippage_bps bt / 10000)),
                pos_entry_time = t\<rparr>"
  have q: "queue_and_enter bt t (initial_state [s]) =
      \<lparr>pending = [], open_position = Some ?pos, trades = []\<rparr>"
    using assms by (simp add: queue_and_enter_def initial_state_def enter_position_def)
  have h1: "bar_timestamp (ohlc_bar t c h l) = Some t" and h2: "bar_close (ohlc_bar t c h l) = Some c"
    by (simp_all add: ohlc_bar_def)
  have h3: "open_position (queue_and_enter bt t (initial_state [s])) = Some ?pos"
    by (simp add: q)
  let ?e = "case check_exit (sig_side s) l h (sig_stop s) (sig_target s) (slippage_bps bt / 10000) of
               None \<Rightarrow> (''expiry'', c * (if sig_side s = BUY then 1 - slippage_bps bt / 10000
                                         else 1 + slippage_bps bt / 10000))
             | Some e \<Rightarrow> e"
  have pb: "process_bar bt 1 0 (ohlc_bar t c h l) (initial_state [s]) =
      Inr \<lparr>pending = [], open_position = None, trades = [case_prod (close_trade bt ?pos t) ?e]\<rparr>"
    unfolding process_bar_open [OF h1 h2 h3] q
    by (simp add: force_expiry_def ohlc_bar_def row_get_def trades_initial_state
        split: option.splits)
  then show ?thesis
    by (simp add: simulate_trades_def simulate_state_single df_empty_def no_columns_def ohlc_bar_def)
qed

section \<open>Stop before target\<close>

lemma check_exit_stop_buy:
  "low \<le> stop_p \<Longrightarrow>
     check_exit BUY low high stop_p target_p sl = Some (''stop'', stop_p * (1 - sl))"
  by (simp add: check_exit_def)

lemma check_exit_stop_sell:
  "high \<ge> stop_p \<Longrightarrow>
     check_exit SELL low high stop_p target_p sl = Some (''stop'', stop_p * (1 + sl))"
  by (simp add: check_exit_def)

lemma force_expiry_Some: "force_expiry n i sd c sl (Some e) = Some e"
  by (simp add: force_expiry_def)

lemma force_expiry_target:
  "force_expiry n i sd c sl ex = Some (''target'', p) \<Longrightarrow> ex = Some (''target'', p)"
  by (auto simp: force_expiry_def split: if_splits)

lemma check_exit_target:
  "check_exit sd low high stop_p target_p sl = Some (''target'', p) \<Longrightarrow>
     (if sd = BUY then \<not> low \<le> stop_p \<and> high \<ge> target_p \<and> p = target_p * (1 - sl)
      else \<not> high \<ge> stop_p \<and> low \<le> target_p \<and> p = target_p * (1 + sl))"
  by (auto simp: check_exit_def split: if_splits)

text \<open>
  C1. Take a row that has a timestamp and a close, and the position \<open>pos\<close> that is open
  when the exit checks of that row run (carried over, or entered on this very row). If \<open>pos\<close>
  is a BUY and the row's low is at or below the stop, the row closes the trade with reason
  \<open>stop\<close> at \<open>stop * (1 - slip)\<close>, whatever the high is, so also when the target is
  breached as well. If \<open>pos\<close> is a SELL and the high is at or above the stop, the trade
  closes with reason \<open>stop\<close> at \<open>stop * (1 + slip)\<close>. And whenever the row appends a trade
  with reason \<open>target\<close>, the stop condition of the position's side is false on that row.
\<close>

theorem stop_checked_before_target:
  assumes "bar_timestamp row = Some ts" and "bar_close row = Some c"
    and "open_position (queue_and_enter bt ts st) = Some pos"
  shows
   "(sig_side (pos_signal pos) = BUY \<and> row_get (bar_low row) c \<le> sig_stop (pos_signal pos) \<longrightarrow>
      (\<exists>tr. process_bar bt n i row st =
              Inr ((queue_and_enter bt ts st)\<lparr>open_position := None, trades := trades st @ [tr]\<rparr>)
          \<and> exit_reason tr = ''stop''
          \<and> exit_price tr = sig_stop (pos_signal pos) * (1 - slippage_bps bt / 10000)))
  \<and> (sig_side (pos_signal pos) = SELL \<and> row_get (bar_high row) c \<ge> sig_stop (pos_signal pos) \<longrightarrow>
      (\<exists>tr. process_bar bt n i row st =
              Inr ((queue_and_enter bt ts st)\<lparr>open_position := None, trades := trades st @ [tr]\<rparr>)
          \<and> exit_reason tr = ''stop''
          \<and> exit_price tr = sig_stop (pos_signal pos) * (1 + slippage_bps bt / 10000)))
  \<and> (\<forall>st' tr. process_bar bt n i row st = Inr st' \<and> trades st' = trades st @ [tr]
         \<and> exit_reason tr = ''target'' \<longrightarrow>
        (if sig_side (pos_signal pos) = BUY
         then \<not> row_get (bar_low row) c \<le> sig_stop (pos_signal pos)
         else \<not> row_get (bar_high row) c \<ge> sig_stop (pos_signal pos)))"
proof (intro conjI impI allI)
  assume "sig_side (pos_signal pos) = BUY \<and> row_get (bar_low row) c \<le> sig_stop (pos_signal pos)"
  then show "\<exists>tr. process_bar bt n i row st =
              Inr ((queue_and_enter bt ts st)\<lparr>open_position := None, trades := trades st @ [tr]\<rparr>)
          \<and> exit_reason tr = ''stop''
          \<and> exit_price tr = sig_stop (pos_signal pos) * (1 - slippage_bps bt / 10000)"
    by (intro exI [of _ "close_trade bt pos ts ''stop''
          (sig_stop (pos_signal pos) * (1 - slippage_bps bt / 10000))"])
      (simp add: process_bar_open [OF assms] check_exit_stop_buy force_expiry_Some
        close_trade_fields)
next
  assume "sig_side (pos_signal pos) = SELL \<and> row_get (bar_high row) c \<ge> sig_stop (pos_signal pos)"
  then show "\<exists>tr. process_bar bt n i row st =
              Inr ((queue_and_enter bt ts st)\<lparr>open_position := None, trades := trades st @ [tr]\<rparr>)
          \<and> exit_reason tr = ''stop''
          \<and> exit_price tr = sig_stop (pos_signal pos) * (1 + slippage_bps bt / 10000)"
    by (intro exI [of _ "close_trade bt pos ts ''stop''
          (sig_stop (pos_signal pos) * (1 + slippage_bps bt / 10000))"])
      (simp add: process_bar_open [OF assms] check_exit_stop_sell force_expiry_Some
        close_trade_fields)
next
  fix st' tr
  assume a: "process_bar bt n i row st = Inr st' \<and> trades st' = trades st @ [tr]
         \<and> exit_reason tr = ''target''"
  let ?ce = "check_exit (sig_side (pos_signal pos)) (row_get (bar_low row) c)
                (row_get (bar_high row) c) (sig_stop (pos_signal pos))
                (sig_target (pos_signal pos)) (slippage_bps bt / 10000)"
  let ?fe = "force_expiry n i (sig_side (pos_signal pos)) c (slippage_bps bt / 10000) ?ce"
  from a obtain p where "?fe = Some (''target'', p)"
    by (auto simp: process_bar_open [OF assms] trades_queue_and_enter close_trade_fields
        split: option.splits prod.splits)
  then have "?ce = Some (''target'', p)" by (rule force_expiry_target)
  from check_exit_target [OF this]
  show "if sig_side (pos_signal pos) = BUY
         then \<not> row_get (bar_low row) c \<le> sig_stop (pos_signal pos)
         else \<not> row_get (bar_high row) c \<ge> sig_stop (pos_signal pos)"
    by (simp split: if_splits)
qed

text \<open>
  The row of the specification's example, low 98 and high 106, breaches both levels of the
  BUY position (stop 99, target 105) and of the SELL position (stop 105, target 99); a row
  with low 99.5 and high 106 closes the BUY position at its target. The run over the first
  row and the BUY signal returns the one trade, stopped out.
\<close>

theorem stop_checked_before_target_witness:
  "(\<exists>tr. process_bar default_backtester 1 0 (ohlc_bar 0 100 106 98)
            (initial_state [signal_99_105 BUY 0]) =
          Inr \<lparr>pending = [], open_position = None, trades = [tr]\<rparr>
        \<and> exit_reason tr = ''stop'' \<and> exit_price tr = 99 * (1 - 5 / 10000))
   \<and> (\<exists>tr. process_bar default_backtester 1 0 (ohlc_bar 0 100 106 98)
            (initial_state [signal_99_105 SELL 0]) =
          Inr \<lparr>pending = [], open_position = None, trades = [tr]\<rparr>
        \<and> exit_reason tr = ''stop'' \<and> exit_price tr = 105 * (1 + 5 / 10000))
   \<and> (\<exists>tr. process_bar default_backtester 1 0 (ohlc_bar 0 100 106 (199 / 2))
            (initial_state [signal_99_105 BUY 0]) =
          Inr \<lparr>pending = [], open_position = None, trades = [tr]\<rparr>
        \<and> exit_reason tr = ''target''
        \<and> \<not> row_get (bar_low (ohlc_bar 0 100 106 (199 / 2))) 100 \<le> 99)
   \<and> (\<exists>tr. simulate_trades default_backtester [ohlc_bar 0 100 106 98] [signal_99_105 BUY 0] =
          Inr [tr]
        \<and> exit_reason tr = ''stop'' \<and> exit_price tr = 99 * (1 - 5 / 10000))"
proof -
  let ?row = "ohlc_bar 0 100 106 98"
  let ?row' = "ohlc_bar 0 100 106 (199 / 2)"
  let ?pos = "\<lambda>sd. \<lparr>pos_signal = signal_99_105 sd 0,
       pos_entry_price = (if sd = BUY then 100 * (1 + 5 / 10000) else 100 * (1 - 5 / 10000)),
       pos_entry_time = 0\<rparr>"
  let ?st = "\<lambda>sd. initial_state [signal_99_105 sd 0]"
  have h1: "bar_timestamp (ohlc_bar 0 100 h l) = Some 0"
    and h2: "bar_close (ohlc_bar 0 100 h l) = Some 100" for h l
    by (simp_all add: ohlc_bar_def)
  have h3: "open_position (queue_and_enter default_backtester 0 (?st sd)) = Some (?pos sd)" for sd
    by (simp add: queue_and_enter_first)
  have b: "sig_side (pos_signal (?pos BUY)) = BUY
        \<and> row_get (bar_low ?row) 100 \<le> sig_stop (pos_signal (?pos BUY))"
    by (simp add: signal_99_105_def ohlc_bar_def row_get_def)
  have s: "sig_side (pos_signal (?pos SELL)) = SELL
        \<and> row_get (bar_high ?row) 100 \<ge> sig_stop (pos_signal (?pos SELL))"
    by (simp add: signal_99_105_def ohlc_bar_def row_get_def)
  from stop_checked_before_target [OF h1 [of 106 98] h2 [of 106 98] h3 [of BUY], where n = 1 and i = 0] b
  have "\<exists>tr. process_bar default_backtester 1 0 ?row (?st BUY) =
          Inr ((queue_and_enter default_backtester 0 (?st BUY))
                \<lparr>open_position := None, trades := trades (?st BUY) @ [tr]\<rparr>)
        \<and> exit_reason tr = ''stop''
        \<and> exit_price tr =
            sig_stop (pos_signal (?pos BUY)) * (1 - slippage_bps default_backtester / 10000)"
    by blast
  then have B: "\<exists>tr. process_bar default_backtester 1 0 ?row (?st BUY) =
          Inr \<lparr>pending = [], open_position = None, trades = [tr]\<rparr>
        \<and> exit_reason tr = ''stop'' \<and> exit_price tr = 99 * (1 - 5 / 10000)"
    unfolding queue_and_enter_first trades_initial_state slippage_default
    by (simp add: signal_99_105_def)
  from stop_checked_before_target [OF h1 [of 106 98] h2 [of 106 98] h3 [of SELL], where n = 1 and i = 0] s
  have "\<exists>tr. process_bar default_backtester 1 0 ?row (?st SELL) =
          Inr ((queue_and_enter default_backtester 0 (?st SELL))
                \<lparr>open_position := None, trades := trades (?st SELL) @ [tr]\<rparr>)
        \<and> exit_reason tr = ''stop''
        \<and> exit_price tr =
            sig_stop (pos_signal (?pos SELL)) * (1 + slippage_bps default_backtester / 10000)"
    by blast
  then have S: "\<exists>tr. process_bar default_backtester 1 0 ?row (?st SELL) =
          Inr \<lparr>pending = [], open_position = None, trades = [tr]\<rparr>
        \<and> exit_reason tr = ''stop'' \<and> exit_price tr = 105 * (1 + 5 / 10000)"
    unfolding queue_and_enter_first trades_initial_state slippage_default
    by (simp add: signal_99_105_def)
  let ?tr = "close_trade default_backtester (?pos BUY) 0 ''target''
               (sig_target (pos_signal (?pos BUY)) * (1 - 5 / 10000))"
  have ce: "check_exit BUY (199 / 2) 106 99 105 sl = Some (''target'', 105 * (1 - sl))" for sl
    by (simp add: check_exit_def)
  have run: "process_bar default_backtester 1 0 ?row' (?st BUY) =
          Inr \<lparr>pending = [], open_position = None, trades = [?tr]\<rparr>"
    unfolding process_bar_open [OF h1 [of 106 "199 / 2"] h2 [of 106 "199 / 2"] h3 [of BUY]] queue_and_enter_first
      trades_initial_state slippage_default
    by (simp add: signal_99_105_def ohlc_bar_def row_get_def ce force_expiry_Some)
  have "process_bar default_backtester 1 0 ?row' (?st BUY) =
          Inr \<lparr>pending = [], open_position = None, trades = [?tr]\<rparr>
        \<and> trades \<lparr>pending = [], open_position = None, trades = [?tr]\<rparr> = trades (?st BUY) @ [?tr]
        \<and> exit_reason ?tr = ''target''"
    using run by (simp add: trades_initial_state close_trade_fields)
  with stop_checked_before_target [OF h1 [of 106 "199 / 2"] h2 [of 106 "199 / 2"] h3 [of BUY], where n = 1 and i = 0]
  have "\<not> row_get (bar_low ?row') 100 \<le> sig_stop (pos_signal (?pos BUY))"
    by (simp add: signal_99_105_def)
  then have T: "\<exists>tr. process_bar default_backtester 1 0 ?row' (?st BUY) =
          Inr \<lparr>pending = [], open_position = None, trades = [tr]\<rparr>
        \<and> exit_reason tr = ''target'' \<and> \<not> row_get (bar_low ?row') 100 \<le> 99"
    using run by (simp add: close_trade_fields signal_99_105_def)
  have ne: "\<not> df_empty [?row]"
    by (simp add: df_empty_def no_columns_def ohlc_bar_def)
  from B have R: "\<exists>tr. simulate_trades default_backtester [?row] [signal_99_105 BUY 0] = Inr [tr]
      \<and> exit_reason tr = ''stop'' \<and> exit_price tr = 99 * (1 - 5 / 10000)"
    unfolding simulate_trades_def simulate_state_single using ne by auto
  from B S T R show ?thesis by blast
qed

section \<open>One position at a time\<close>

lemma dropWhile_sorted_above:
  "sorted (map f xs) \<Longrightarrow> x \<in> set (dropWhile (\<lambda>y. f y \<le> (t::int)) xs) \<Longrightarrow> t < f x"
proof (induction xs)
  case Nil
  then show ?case by simp
next
  case (Cons a xs)
  show ?case
  proof (cases "f a \<le> t")
    case True
    with Cons show ?thesis by simp
  next
    case False
    with Cons.prems show ?thesis by fastforce
  qed
qed

lemma sorted_dropWhile_map:
  "sorted (map f xs) \<Longrightarrow> sorted (map f (dropWhile P xs))"
  by (induction xs) auto

lemma queue_and_enter_invariant:
  assumes inv: "ledger_invariant T s" and le: "\<forall>u\<in>T. u \<le> t"
  shows "ledger_invariant (insert t T) (queue_and_enter bt t s)"
proof -
  let ?q = "queue_and_enter bt t s"
  from inv have srt: "sorted (map sig_timestamp (pending s))"
    and above: "\<forall>sg\<in>set (pending s). \<forall>u\<in>T. u < sig_timestamp sg"
    and trs: "\<forall>tr\<in>set (trades s). exit_time tr \<in> T \<and> entry_time tr \<le> exit_time tr"
    and sx: "sorted (map exit_time (trades s))"
    and sw: "sorted_wrt (\<lambda>a b. exit_time a < entry_time b) (trades s)"
    and op: "\<forall>pos. open_position s = Some pos \<longrightarrow>
         pos_entry_time pos \<in> T \<and> (\<forall>tr\<in>set (trades s). exit_time tr < pos_entry_time pos)"
    by (simp_all add: ledger_invariant_def)
  have 1: "sorted (map sig_timestamp (pending ?q))"
    using srt by (simp add: queue_and_enter_fields sorted_dropWhile_map)
  have 2: "\<forall>sg\<in>set (pending ?q). \<forall>u\<in>insert t T. u < sig_timestamp sg"
  proof (intro ballI)
    fix sg u assume sg: "sg \<in> set (pending ?q)" and u: "u \<in> insert t T"
    from sg have "t < sig_timestamp sg"
      using dropWhile_sorted_above [OF srt] by (simp add: queue_and_enter_fields)
    with u le show "u < sig_timestamp sg" by fastforce
  qed
  have 3: "\<forall>tr\<in>set (trades ?q). exit_time tr \<in> insert t T \<and> entry_time tr \<le> exit_time tr"
    using trs by (simp add: trades_queue_and_enter)
  have 6: "pos_entry_time pos \<in> insert t T \<and> (\<forall>tr\<in>set (trades ?q). exit_time tr < pos_entry_time pos)"
    if "open_position ?q = Some pos" for pos
    using enter_position_cases [OF that [unfolded queue_and_enter_fields]]
  proof
    assume "open_position s = Some pos"
    with op show ?thesis by (simp add: trades_queue_and_enter)
  next
    assume "\<exists>sg\<in>set (takeWhile (\<lambda>sg. sig_timestamp sg \<le> t) (pending s)).
        open_position s = None \<and> pos_signal pos = sg \<and> pos_entry_time pos = t \<and>
        pos_entry_price pos = sig_entry sg *
          (if sig_side sg = BUY then 1 + slippage_bps bt / 10000 else 1 - slippage_bps bt / 10000)"
    then obtain sg where sg: "sg \<in> set (takeWhile (\<lambda>sg. sig_timestamp sg \<le> t) (pending s))"
      and et: "pos_entry_time pos = t" by blast
    from sg have "sg \<in> set (pending s)" by (rule set_takeWhileD [THEN conjunct1])
    moreover from sg have "sig_timestamp sg \<le> t" by (rule set_takeWhileD [THEN conjunct2])
    ultimately have "\<forall>u\<in>T. u < t" using above by fastforce
    with trs et show ?thesis by (simp add: trades_queue_and_enter)
  qed
  from 1 2 3 sx sw 6 show ?thesis
    by (simp add: ledger_invariant_def trades_queue_and_enter)
qed

lemma process_bar_invariant:
  assumes inv: "ledger_invariant T s" and pb: "process_bar bt n i row s = Inr s'"
    and ts: "bar_timestamp row = Some t" and le: "\<forall>u\<in>T. u \<le> t"
  shows "ledger_invariant (insert t T) s'"
proof -
  let ?q = "queue_and_enter bt t s"
  have q: "ledger_invariant (insert t T) ?q"
    using inv le by (rule queue_and_enter_invariant)
  from pb show ?thesis
  proof (cases rule: process_bar_cases)
    case (keep ts')
    with ts q show ?thesis by simp
  next
    case (exit ts' pos reason p)
    with ts have [simp]: "ts' = t" by simp
    let ?tr = "close_trade bt pos t reason p"
    from q have trs: "\<forall>tr\<in>set (trades s). exit_time tr \<in> insert t T \<and> entry_time tr \<le> exit_time tr"
      and sx: "sorted (map exit_time (trades s))"
      and sw: "sorted_wrt (\<lambda>a b. exit_time a < entry_time b) (trades s)"
      and op: "pos_entry_time pos \<in> insert t T \<and> (\<forall>tr\<in>set (trades s). exit_time tr < pos_entry_time pos)"
      and pend: "sorted (map sig_timestamp (pending ?q))"
         "\<forall>sg\<in>set (pending ?q). \<forall>u\<in>insert t T. u < sig_timestamp sg"
      using exit(2) by (simp_all add: ledger_invariant_def trades_queue_and_enter)
    have all_le: "\<forall>u\<in>insert t T. u \<le> t" using le by simp
    have a: "\<forall>tr\<in>set (trades s @ [?tr]). exit_time tr \<in> insert t T \<and> entry_time tr \<le> exit_time tr"
      using trs op all_le by (auto simp: close_trade_fields)
    have b: "sorted (map exit_time (trades s @ [?tr]))"
      using sx trs all_le by (auto simp: sorted_append close_trade_fields)
    have c: "sorted_wrt (\<lambda>a b. exit_time a < entry_time b) (trades s @ [?tr])"
      using sw op by (simp add: sorted_wrt_append close_trade_fields)
    from a b c pend show ?thesis
      by (simp add: exit(3) ledger_invariant_def)
  qed
qed

lemma simulate_loop_ledger_invariant:
  assumes "simulate_loop bt n rows st = Inr st'"
    and "map (\<lambda>x. bar_timestamp (snd x)) rows = map Some ts" and "sorted ts"
    and "\<forall>u\<in>T. \<forall>t\<in>set ts. u \<le> t"
    and "ledger_invariant T st"
  shows "ledger_invariant (T \<union> set ts) st'"
  using assms
proof (induction rows arbitrary: st T ts)
  case Nil
  then show ?case by simp
next
  case (Cons x rows)
  obtain i row where x: "x = (i, row)" by (cases x)
  from Cons.prems(2) x obtain t ts' where ts: "ts = t # ts'" "bar_timestamp row = Some t"
    "map (\<lambda>x. bar_timestamp (snd x)) rows = map Some ts'"
    by (cases ts) auto
  from Cons.prems(1) x obtain s1 where s1: "process_bar bt n i row st = Inr s1"
    and rest: "simulate_loop bt n rows s1 = Inr st'"
    by (auto split: sum.splits)
  from Cons.prems(4) ts have le: "\<forall>u\<in>T. u \<le> t" by simp
  have inv1: "ledger_invariant (insert t T) s1"
    using Cons.prems(5) s1 ts(2) le by (rule process_bar_invariant)
  from Cons.prems(3) ts have srt: "sorted ts'" and tle: "\<forall>t'\<in>set ts'. t \<le> t'" by simp_all
  have "\<forall>u\<in>insert t T. \<forall>t'\<in>set ts'. u \<le> t'"
    using Cons.prems(4) ts(1) tle by simp
  from Cons.IH [OF rest ts(3) srt this inv1]
  show ?case using ts(1) by simp
qed

text \<open>
  C3. The loop state holds at most one open position (\<open>open_position\<close> is an option). For
  a frame whose timestamps are in non-decreasing order (\<open>run\<close> sorts the frame at line 84;
  strictly increasing timestamps are a special case), in the ledger of any run every
  trade's exit time is strictly before the entry time of every later trade, no trade exits
  before it enters, and the ledger is sorted by exit time non-decreasingly.
\<close>

theorem ledger_trades_do_not_overlap:
  assumes "simulate_trades bt df signals = Inr ledger"
    and "map bar_timestamp df = map Some ts" and "sorted ts"
  shows "(\<forall>i j. i < j \<and> j < length ledger \<longrightarrow> exit_time (ledger ! i) < entry_time (ledger ! j))
     \<and> (\<forall>tr\<in>set ledger. entry_time tr \<le> exit_time tr)
     \<and> sorted (map exit_time ledger)"
proof (cases "signals = [] \<or> df_empty df")
  case True
  with assms(1) show ?thesis by (auto simp: simulate_trades_def)
next
  case False
  let ?st0 = "\<lparr>pending = sort_key sig_timestamp signals, open_position = None, trades = []\<rparr>"
  from assms(1) False obtain st' where run: "simulate_loop bt (length df) (enumerate 0 df) ?st0 = Inr st'"
    and led: "ledger = trades st'"
    by (auto simp: simulate_trades_def simulate_state_def initial_state_def split: sum.splits)
  have m: "map (\<lambda>x. bar_timestamp (snd x)) (enumerate 0 df) = map Some ts"
    using assms(2) by (simp add: map_snd_enumerate flip: map_map [unfolded comp_def])
  have inv0: "ledger_invariant {} ?st0" by (simp add: ledger_invariant_def)
  from simulate_loop_ledger_invariant [OF run m assms(3) _ inv0]
  have inv: "ledger_invariant ({} \<union> set ts) st'" by simp
  then have "sorted_wrt (\<lambda>a b. exit_time a < entry_time b) ledger"
    and "\<forall>tr\<in>set ledger. entry_time tr \<le> exit_time tr"
    and "sorted (map exit_time ledger)"
    by (simp_all add: ledger_invariant_def led)
  then show ?thesis by (simp add: sorted_wrt_iff_nth_less)
qed

lemma two_row_run:
  "simulate_trades default_backtester
      [ohlc_bar 0 100 106 98, ohlc_bar 60000000000 100 106 98]
      [signal_99_105 SELL 60000000000, signal_99_105 BUY 0] =
   Inr [close_trade default_backtester
          \<lparr>pos_signal = signal_99_105 BUY 0, pos_entry_price = 100 * (1 + 5 / 10000),
           pos_entry_time = 0\<rparr> 0 ''stop'' (99 * (1 - 5 / 10000)),
        close_trade default_backtester
          \<lparr>pos_signal = signal_99_105 SELL 60000000000, pos_entry_price = 100 * (1 - 5 / 10000),
           pos_entry_time = 60000000000\<rparr> 60000000000 ''stop'' (105 * (1 + 5 / 10000))]"
  by (simp add: simulate_trades_def df_empty_def no_columns_def simulate_state_def initial_state_def process_bar_def evaluate_exit_def
      queue_and_enter_def enter_position_def check_exit_def force_expiry_def
      ohlc_bar_def row_get_def signal_99_105_def slippage_default)

text \<open>
  Two rows one minute apart, both with low 98 and high 106, and one signal due at each: a
  BUY stopped out on the first row and a SELL stopped out on the second.
\<close>

theorem ledger_trades_do_not_overlap_witness:
  "\<exists>a b. simulate_trades default_backtester
            [ohlc_bar 0 100 106 98, ohlc_bar 60000000000 100 106 98]
            [signal_99_105 SELL 60000000000, signal_99_105 BUY 0] = Inr [a, b]
      \<and> exit_time a < entry_time b
      \<and> entry_time a \<le> exit_time a \<and> entry_time b \<le> exit_time b
      \<and> sorted (map exit_time [a, b])"
proof -
  let ?df = "[ohlc_bar 0 100 106 98, ohlc_bar 60000000000 100 106 98]"
  have ts: "map bar_timestamp ?df = map Some [0, 60000000000]" by (simp add: ohlc_bar_def)
  have srt: "sorted [0, 60000000000 :: int]" by simp
  from two_row_run obtain a b where run: "simulate_trades default_backtester ?df
      [signal_99_105 SELL 60000000000, signal_99_105 BUY 0] = Inr [a, b]"
    by blast
  note r = ledger_trades_do_not_overlap [OF run ts srt]
  from r have "0 < (1::nat) \<and> 1 < length [a, b] \<longrightarrow>
      exit_time ([a, b] ! 0) < entry_time ([a, b] ! 1)"
    by blast
  then have 1: "exit_time a < entry_time b" by simp
  from r have 2: "entry_time a \<le> exit_time a \<and> entry_time b \<le> exit_time b" by simp
  from r have 3: "sorted (map exit_time [a, b])" by blast
  from run 1 2 3 show ?thesis by blast
qed

section \<open>Forced expiry\<close>

lemma process_bar_last_flat:
  assumes "process_bar bt n i row st = Inr st'" and "int i = int n - 1"
  shows "open_position st' = None"
proof -
  from assms(1) obtain ts where ts: "bar_timestamp row = Some ts"
    by (auto simp: process_bar_def split: option.splits)
  show ?thesis
  proof (cases "open_position (queue_and_enter bt ts st)")
    case None
    with assms(1) ts show ?thesis by (simp add: process_bar_flat)
  next
    case (Some pos)
    with assms(1) ts obtain c where c: "bar_close row = Some c"
      by (auto simp: process_bar_def evaluate_exit_def split: option.splits)
    from assms show ?thesis
      unfolding process_bar_open [OF ts c Some]
      by (auto simp: force_expiry_def split: option.splits if_splits)
  qed
qed

lemma simulate_state_flat:
  assumes "simulate_state bt df signals = Inr st'"
  shows "open_position st' = None"
proof (cases df rule: rev_cases)
  case Nil
  with assms show ?thesis by (auto simp: simulate_state_def initial_state_def)
next
  case (snoc rows row)
  let ?st0 = "\<lparr>pending = sort_key sig_timestamp signals, open_position = None, trades = []\<rparr>"
  from assms snoc obtain st1 where
    "process_bar bt (length df) (length rows) row st1 = Inr st'"
    by (auto simp: simulate_state_def initial_state_def enumerate_append_eq simulate_loop_append
        split: sum.splits)
  moreover have "int (length rows) = int (length df) - 1" using snoc by simp
  ultimately show ?thesis by (rule process_bar_last_flat)
qed

lemma check_exit_None:
  "(if sd = BUY then stop_p < low \<and> high < target_p else high < stop_p \<and> target_p < low) \<Longrightarrow>
     check_exit sd low high stop_p target_p sl = None"
  by (auto simp: check_exit_def split: if_splits)

text \<open>
  C6. On the last row (\<open>bar_idx = len(df) - 1\<close>), a position that is open when the exit
  checks run and whose stop and target are both not breached is closed with reason
  \<open>expiry\<close> at \<open>close * (1 - slip)\<close> for a BUY and \<open>close * (1 + slip)\<close> for a SELL. And
  the state in which any run of the loop ends holds no open position.
\<close>

theorem forced_expiry_on_last_bar:
  "(bar_timestamp row = Some ts \<and> bar_close row = Some c
      \<and> open_position (queue_and_enter bt ts st) = Some pos
      \<and> int i = int n - 1
      \<and> (if sig_side (pos_signal pos) = BUY
          then sig_stop (pos_signal pos) < row_get (bar_low row) c
             \<and> row_get (bar_high row) c < sig_target (pos_signal pos)
          else row_get (bar_high row) c < sig_stop (pos_signal pos)
             \<and> sig_target (pos_signal pos) < row_get (bar_low row) c)
     \<longrightarrow> (\<exists>tr. process_bar bt n i row st =
              Inr ((queue_and_enter bt ts st)\<lparr>open_position := None, trades := trades st @ [tr]\<rparr>)
          \<and> exit_reason tr = ''expiry''
          \<and> exit_price tr =
              c * (if sig_side (pos_signal pos) = BUY then 1 - slippage_bps bt / 10000
                   else 1 + slippage_bps bt / 10000)))
   \<and> (simulate_state bt df signals = Inr st' \<longrightarrow> open_position st' = None)"
proof (intro conjI impI)
  assume a: "bar_timestamp row = Some ts \<and> bar_close row = Some c
      \<and> open_position (queue_and_enter bt ts st) = Some pos
      \<and> int i = int n - 1
      \<and> (if sig_side (pos_signal pos) = BUY
          then sig_stop (pos_signal pos) < row_get (bar_low row) c
             \<and> row_get (bar_high row) c < sig_target (pos_signal pos)
          else row_get (bar_high row) c < sig_stop (pos_signal pos)
             \<and> sig_target (pos_signal pos) < row_get (bar_low row) c)"
  let ?p = "c * (if sig_side (pos_signal pos) = BUY then 1 - slippage_bps bt / 10000
                   else 1 + slippage_bps bt / 10000)"
  from a have ce: "check_exit (sig_side (pos_signal pos)) (row_get (bar_low row) c)
                (row_get (bar_high row) c) (sig_stop (pos_signal pos))
                (sig_target (pos_signal pos)) (slippage_bps bt / 10000) = None"
    by (intro check_exit_None) simp
  from a have pb: "process_bar bt n i row st =
      Inr ((queue_and_enter bt ts st)\<lparr>open_position := None,
             trades := trades st @ [close_trade bt pos ts ''expiry'' ?p]\<rparr>)"
    by (simp add: process_bar_open [of row ts c bt st pos] ce force_expiry_def)
  show "\<exists>tr. process_bar bt n i row st =
              Inr ((queue_and_enter bt ts st)\<lparr>open_position := None, trades := trades st @ [tr]\<rparr>)
          \<and> exit_reason tr = ''expiry'' \<and> exit_price tr = ?p"
    by (intro exI [of _ "close_trade bt pos ts ''expiry'' ?p"])
      (simp add: pb close_trade_fields)
next
  assume "simulate_state bt df signals = Inr st'"
  then show "open_position st' = None" by (rule simulate_state_flat)
qed

text \<open>
  One row with low 99.5 and high 104 around the BUY position with stop 99 and target 105:
  the only row is the last one, and the position expires at its close; the run over that
  row returns this one trade. In a run over two such rows the position is kept on the first
  row and expires on the second, at its close of 101.
\<close>

theorem forced_expiry_on_last_bar_witness:
  "(\<exists>tr. process_bar default_backtester 1 0 (ohlc_bar 0 100 104 (199 / 2))
            (initial_state [signal_99_105 BUY 0]) =
          Inr \<lparr>pending = [], open_position = None, trades = [tr]\<rparr>
        \<and> exit_reason tr = ''expiry'' \<and> exit_price tr = 100 * (1 - 5 / 10000))
   \<and> (\<exists>st'. simulate_state default_backtester [ohlc_bar 0 100 104 (199 / 2)]
               [signal_99_105 BUY 0] = Inr st' \<and> open_position st' = None)
   \<and> (\<exists>tr. simulate_trades default_backtester [ohlc_bar 0 100 104 (199 / 2)]
               [signal_99_105 BUY 0] = Inr [tr]
        \<and> exit_reason tr = ''expiry'' \<and> exit_price tr = 100 * (1 - 5 / 10000))
   \<and> (\<exists>tr. simulate_trades default_backtester
               [ohlc_bar 0 100 104 (199 / 2), ohlc_bar 60000000000 101 104 (199 / 2)]
               [signal_99_105 BUY 0] = Inr [tr]
        \<and> exit_reason tr = ''expiry'' \<and> exit_price tr = 101 * (1 - 5 / 10000)
        \<and> entry_time tr = 0 \<and> exit_time tr = 60000000000)"
proof -
  let ?row = "ohlc_bar 0 100 104 (199 / 2)"
  let ?st = "initial_state [signal_99_105 BUY 0]"
  let ?pos = "\<lparr>pos_signal = signal_99_105 BUY 0,
       pos_entry_price = (if BUY = BUY then 100 * (1 + 5 / 10000) else 100 * (1 - 5 / 10000)),
       pos_entry_time = 0\<rparr>"
  have h: "bar_timestamp ?row = Some 0 \<and> bar_close ?row = Some 100
      \<and> open_position (queue_and_enter default_backtester 0 ?st) = Some ?pos
      \<and> int 0 = int 1 - 1
      \<and> (if sig_side (pos_signal ?pos) = BUY
          then sig_stop (pos_signal ?pos) < row_get (bar_low ?row) 100
             \<and> row_get (bar_high ?row) 100 < sig_target (pos_signal ?pos)
          else row_get (bar_high ?row) 100 < sig_stop (pos_signal ?pos)
             \<and> sig_target (pos_signal ?pos) < row_get (bar_low ?row) 100)"
    unfolding queue_and_enter_first
    by (simp add: ohlc_bar_def signal_99_105_def row_get_def)
  note inst = forced_expiry_on_last_bar [of ?row 0 100 default_backtester ?st ?pos 0 1 "[?row]" "[signal_99_105 BUY 0]"]
  from inst h
  have "\<exists>tr. process_bar default_backtester 1 0 ?row ?st =
              Inr ((queue_and_enter default_backtester 0 ?st)
                    \<lparr>open_position := None, trades := trades ?st @ [tr]\<rparr>)
          \<and> exit_reason tr = ''expiry''
          \<and> exit_price tr =
              100 * (if sig_side (pos_signal ?pos) = BUY then 1 - slippage_bps default_backtester / 10000
                   else 1 + slippage_bps default_backtester / 10000)"
    by blast
  then have A: "\<exists>tr. process_bar default_backtester 1 0 ?row ?st =
          Inr \<lparr>pending = [], open_position = None, trades = [tr]\<rparr>
        \<and> exit_reason tr = ''expiry'' \<and> exit_price tr = 100 * (1 - 5 / 10000)"
    unfolding queue_and_enter_first trades_initial_state slippage_default
    by (simp add: signal_99_105_def)
  then obtain st' where run: "simulate_state default_backtester [?row] [signal_99_105 BUY 0] = Inr st'"
    unfolding simulate_state_single by blast
  with inst have "open_position st' = None" by blast
  with run have B: "\<exists>st'. simulate_state default_backtester [?row] [signal_99_105 BUY 0] = Inr st'
      \<and> open_position st' = None"
    by blast
  have ne: "\<not> df_empty [?row]"
    by (simp add: df_empty_def no_columns_def ohlc_bar_def)
  from A have C: "\<exists>tr. simulate_trades default_backtester [?row] [signal_99_105 BUY 0] = Inr [tr]
      \<and> exit_reason tr = ''expiry'' \<and> exit_price tr = 100 * (1 - 5 / 10000)"
    unfolding simulate_trades_def simulate_state_single using ne by auto
  have D: "\<exists>tr. simulate_trades default_backtester
               [?row, ohlc_bar 60000000000 101 104 (199 / 2)] [signal_99_105 BUY 0] = Inr [tr]
        \<and> exit_reason tr = ''expiry'' \<and> exit_price tr = 101 * (1 - 5 / 10000)
        \<and> entry_time tr = 0 \<and> exit_time tr = 60000000000"
    by (simp add: simulate_trades_def df_empty_def no_columns_def simulate_state_def
        initial_state_def process_bar_def evaluate_exit_def queue_and_enter_def
        enter_position_def check_exit_def force_expiry_def ohlc_bar_def row_get_def
        signal_99_105_def slippage_default close_trade_fields)
  from A B C D show ?thesis by blast
qed

section \<open>The risk denominator of the R-multiple\<close>

lemma r_multiple_close_trade:
  "r_multiple (close_trade bt pos ts r p) =
     pnl (close_trade bt pos ts r p) /
       max \<bar>entry_price (close_trade bt pos ts r p) - stop_price (close_trade bt pos ts r p)\<bar>
         (1 / 1000000)"
  by (simp add: close_trade_def Let_def)

lemma shifted_risk_differs:
  fixes e e' sp :: real
  assumes "e' \<noteq> e" and "e' + e \<noteq> 2 * sp" and "\<bar>e - sp\<bar> \<noteq> 1 / 1000000"
  shows "max \<bar>e' - sp\<bar> (1 / 1000000) \<noteq> \<bar>e - sp\<bar>"
proof (cases "\<bar>e' - sp\<bar> \<le> 1 / 1000000")
  case True
  then have "max \<bar>e' - sp\<bar> (1 / 1000000) = 1 / 1000000" by (simp add: max_def)
  with assms(3) show ?thesis by simp
next
  case False
  then have "max \<bar>e' - sp\<bar> (1 / 1000000) = \<bar>e' - sp\<bar>" by (simp add: max_def)
  moreover from assms(1,2) have "\<bar>e' - sp\<bar> \<noteq> \<bar>e - sp\<bar>" by (simp add: abs_if)
  ultimately show ?thesis by simp
qed

lemma ledger_from_signals:
  assumes "simulate_loop bt n rows st = Inr st'"
    and "set (pending st) \<subseteq> S"
    and "\<forall>pos. open_position st = Some pos \<longrightarrow> (\<exists>s\<in>S. pos_signal pos = s \<and> pos_entry_price pos =
           sig_entry s * (if sig_side s = BUY then 1 + slippage_bps bt / 10000
                      else 1 - slippage_bps bt / 10000))"
    and "\<forall>tr\<in>set (trades st). \<exists>s\<in>S. (side tr = sig_side s \<and> stop_price tr = sig_stop s \<and>
       entry_price tr = sig_entry s * (if sig_side s = BUY then 1 + slippage_bps bt / 10000
                      else 1 - slippage_bps bt / 10000))"
  shows "\<forall>tr\<in>set (trades st'). \<exists>s\<in>S. (side tr = sig_side s \<and> stop_price tr = sig_stop s \<and>
       entry_price tr = sig_entry s * (if sig_side s = BUY then 1 + slippage_bps bt / 10000
                      else 1 - slippage_bps bt / 10000))"
proof -
  let ?adj = "\<lambda>s. sig_entry s * (if sig_side s = BUY then 1 + slippage_bps bt / 10000
                      else 1 - slippage_bps bt / 10000)"
  let ?I = "\<lambda>st. set (pending st) \<subseteq> S
     \<and> (\<forall>pos. open_position st = Some pos \<longrightarrow> (\<exists>s\<in>S. pos_signal pos = s \<and> pos_entry_price pos = ?adj s))
     \<and> (\<forall>tr\<in>set (trades st). \<exists>s\<in>S. (side tr = sig_side s \<and> stop_price tr = sig_stop s \<and>
       entry_price tr = sig_entry s * (if sig_side s = BUY then 1 + slippage_bps bt / 10000
                      else 1 - slippage_bps bt / 10000)))"
  have step: "?I s'" if I: "?I s" and pb: "process_bar bt n i row s = Inr s'" for i row s s'
  proof -
    have q: "?I (queue_and_enter bt ts s)" for ts
    proof (intro conjI allI impI)
      show "set (pending (queue_and_enter bt ts s)) \<subseteq> S"
        using I set_dropWhileD by (fastforce simp: queue_and_enter_fields)
    next
      fix pos assume "open_position (queue_and_enter bt ts s) = Some pos"
      from enter_position_cases [OF this [unfolded queue_and_enter_fields]]
      show "\<exists>s\<in>S. pos_signal pos = s \<and> pos_entry_price pos = ?adj s"
      proof
        assume "open_position s = Some pos"
        with I show ?thesis by blast
      next
        assume "\<exists>sg\<in>set (takeWhile (\<lambda>sg. sig_timestamp sg \<le> ts) (pending s)).
          open_position s = None \<and> pos_signal pos = sg \<and> pos_entry_time pos = ts \<and>
          pos_entry_price pos = ?adj sg"
        then obtain sg where "sg \<in> set (takeWhile (\<lambda>sg. sig_timestamp sg \<le> ts) (pending s))"
          and e: "pos_signal pos = sg" "pos_entry_price pos = ?adj sg" by blast
        then have "sg \<in> S" using I set_takeWhileD by fastforce
        with e show ?thesis by blast
      qed
    next
      show "\<forall>tr\<in>set (trades (queue_and_enter bt ts s)). \<exists>s\<in>S. (side tr = sig_side s \<and> stop_price tr = sig_stop s \<and>
       entry_price tr = sig_entry s * (if sig_side s = BUY then 1 + slippage_bps bt / 10000
                      else 1 - slippage_bps bt / 10000))"
        using I by (simp add: trades_queue_and_enter)
    qed
    from pb show ?thesis
    proof (cases rule: process_bar_cases)
      case (keep ts)
      with q show ?thesis by simp
    next
      case (exit ts pos reason p)
      from q [of ts] exit(2) obtain sg where "sg \<in> S" "pos_signal pos = sg" "pos_entry_price pos = ?adj sg"
        by blast
      then have "\<exists>s\<in>S. (side (close_trade bt pos ts reason p) = sig_side s \<and> stop_price (close_trade bt pos ts reason p) = sig_stop s \<and>
       entry_price (close_trade bt pos ts reason p) = sig_entry s * (if sig_side s = BUY then 1 + slippage_bps bt / 10000
                      else 1 - slippage_bps bt / 10000))"
        by (auto simp: close_trade_fields)
      with q [of ts] show ?thesis
        by (auto simp: exit(3) trades_queue_and_enter)
    qed
  qed
  have "?I st'"
  proof (rule simulate_loop_invariant [where I = ?I, OF assms(1)])
    show "?I st" using assms by simp
  next
    fix i row s s'
    assume "?I s" and "process_bar bt n i row s = Inr s'"
    then show "?I s'" by (rule step)
  qed
  then show ?thesis by blast
qed

lemma r_multiple_ledger:
  assumes "simulate_loop bt n rows st = Inr st'"
    and "\<forall>tr\<in>set (trades st). r_multiple tr = pnl tr / max \<bar>entry_price tr - stop_price tr\<bar> (1 / 1000000)"
  shows "\<forall>tr\<in>set (trades st'). r_multiple tr = pnl tr / max \<bar>entry_price tr - stop_price tr\<bar> (1 / 1000000)"
proof (rule simulate_loop_invariant [OF assms(1), where I = "\<lambda>st. \<forall>tr\<in>set (trades st). r_multiple tr = pnl tr / max \<bar>entry_price tr - stop_price tr\<bar> (1 / 1000000)"])
  show "\<forall>tr\<in>set (trades st). r_multiple tr = pnl tr / max \<bar>entry_price tr - stop_price tr\<bar> (1 / 1000000)"
    by (rule assms(2))
next
  fix i row s s'
  assume I: "\<forall>tr\<in>set (trades s). r_multiple tr = pnl tr / max \<bar>entry_price tr - stop_price tr\<bar> (1 / 1000000)"
    and pb: "process_bar bt n i row s = Inr s'"
  from pb show "\<forall>tr\<in>set (trades s'). r_multiple tr = pnl tr / max \<bar>entry_price tr - stop_price tr\<bar> (1 / 1000000)"
  proof (cases rule: process_bar_cases)
    case (keep ts)
    with I show ?thesis by (simp add: trades_queue_and_enter)
  next
    case (exit ts pos reason p)
    with I show ?thesis
      using r_multiple_close_trade [of bt pos ts reason p]
      by (auto simp: trades_queue_and_enter)
  qed
qed

text \<open>
  C9 (amended). Every trade of the ledger comes from one of the signals: it has the signal's
  side and stop, its entry price is the signal's entry with slippage applied
  (\<open>entry * (1 + slip)\<close> for a BUY, \<open>entry * (1 - slip)\<close> for a SELL), and its R-multiple is
  \<open>pnl / max(|entry_price - stop|, 1e-6)\<close> with that adjusted entry price. The adjusted
  entry price differs from the signal's entry only if the slippage and the signal's entry
  are both nonzero. Whenever it does differ, the denominator differs from
  \<open>|signal.entry - stop|\<close>, with two exceptions: the adjusted entry and the signal's entry
  lie at the same distance on either side of the stop
  (\<open>entry_price + signal.entry = 2 * stop\<close>), or \<open>|signal.entry - stop|\<close> is the floor
  \<open>1e-6\<close> itself. Prices are exact here; nothing is said of a difference that rounding
  removes.
\<close>

theorem r_multiple_uses_slipped_entry:
  assumes "simulate_trades bt df signals = Inr ledger" and "tr \<in> set ledger"
  shows "\<exists>s\<in>set signals.
      side tr = sig_side s \<and> stop_price tr = sig_stop s
    \<and> entry_price tr = sig_entry s * (if sig_side s = BUY then 1 + slippage_bps bt / 10000
                                       else 1 - slippage_bps bt / 10000)
    \<and> r_multiple tr = pnl tr / max \<bar>entry_price tr - stop_price tr\<bar> (1 / 1000000)
    \<and> (entry_price tr \<noteq> sig_entry s \<longrightarrow> slippage_bps bt \<noteq> 0 \<and> sig_entry s \<noteq> 0)
    \<and> (entry_price tr \<noteq> sig_entry s
         \<and> entry_price tr + sig_entry s \<noteq> 2 * sig_stop s
         \<and> \<bar>sig_entry s - sig_stop s\<bar> \<noteq> 1 / 1000000
       \<longrightarrow> max \<bar>entry_price tr - stop_price tr\<bar> (1 / 1000000) \<noteq> \<bar>sig_entry s - sig_stop s\<bar>)"
proof -
  let ?st0 = "\<lparr>pending = sort_key sig_timestamp signals, open_position = None, trades = []\<rparr>"
  from assms obtain st' where run: "simulate_loop bt (length df) (enumerate 0 df) ?st0 = Inr st'"
    and led: "ledger = trades st'"
    by (auto simp: simulate_trades_def simulate_state_def initial_state_def split: if_splits sum.splits)
  from ledger_from_signals [OF run, of "set signals"] assms(2) led
  obtain s where s: "s \<in> set signals" "side tr = sig_side s" "stop_price tr = sig_stop s"
    "entry_price tr = sig_entry s * (if sig_side s = BUY then 1 + slippage_bps bt / 10000
                                       else 1 - slippage_bps bt / 10000)"
    by auto
  from r_multiple_ledger [OF run] assms(2) led
  have r: "r_multiple tr = pnl tr / max \<bar>entry_price tr - stop_price tr\<bar> (1 / 1000000)"
    by simp
  have m: "slippage_bps bt \<noteq> 0 \<and> sig_entry s \<noteq> 0" if "entry_price tr \<noteq> sig_entry s"
    using that by (auto simp: s(4) split: if_splits)
  have d: "max \<bar>entry_price tr - stop_price tr\<bar> (1 / 1000000) \<noteq> \<bar>sig_entry s - sig_stop s\<bar>"
    if "entry_price tr \<noteq> sig_entry s \<and> entry_price tr + sig_entry s \<noteq> 2 * sig_stop s
         \<and> \<bar>sig_entry s - sig_stop s\<bar> \<noteq> 1 / 1000000"
    unfolding s(3) using that by (intro shifted_risk_differs) simp_all
  from s r m d show ?thesis by blast
qed

text \<open>
  C9 as stated fails: with a nonzero slippage the denominator can equal
  \<open>|signal.entry - stop|\<close>. With the default 5 bps it does for a SELL with entry 0 and
  stop 1, where the adjusted entry is 0 again, and for a BUY with entry \<open>1e-6\<close> and stop
  \<open>2e-6\<close>, where both denominators are the floor \<open>1e-6\<close>. With 78.125 bps a BUY with entry
  128 and stop 128.5 is entered at 129, as far above the stop as 128 is below it; with
  -200 bps the BUY with entry 100 and stop 99 is entered at 98, and both denominators are 1.
\<close>

theorem r_multiple_denominator_counterexample:
  "(\<exists>tr. simulate_trades default_backtester [ohlc_bar 0 (1 / 2) (3 / 5) (2 / 5)] [zero_entry_signal]
            = Inr [tr]
        \<and> slippage_bps default_backtester \<noteq> 0
        \<and> max \<bar>entry_price tr - stop_price tr\<bar> (1 / 1000000)
            = \<bar>sig_entry zero_entry_signal - sig_stop zero_entry_signal\<bar>)
 \<and> (\<exists>tr. simulate_trades default_backtester [ohlc_bar 0 1 1 1] [floor_risk_signal]
            = Inr [tr]
        \<and> slippage_bps default_backtester \<noteq> 0
        \<and> max \<bar>entry_price tr - stop_price tr\<bar> (1 / 1000000)
            = \<bar>sig_entry floor_risk_signal - sig_stop floor_risk_signal\<bar>)
 \<and> (\<exists>tr. simulate_trades wide_slippage_backtester [ohlc_bar 0 130 131 129] [stop_above_entry_signal]
            = Inr [tr]
        \<and> slippage_bps wide_slippage_backtester \<noteq> 0
        \<and> entry_price tr = 129
        \<and> max \<bar>entry_price tr - stop_price tr\<bar> (1 / 1000000)
            = \<bar>sig_entry stop_above_entry_signal - sig_stop stop_above_entry_signal\<bar>)
 \<and> (\<exists>tr. simulate_trades price_improving_backtester [ohlc_bar 0 100 104 (199 / 2)] [signal_99_105 BUY 0]
            = Inr [tr]
        \<and> slippage_bps price_improving_backtester \<noteq> 0
        \<and> entry_price tr = 98
        \<and> max \<bar>entry_price tr - stop_price tr\<bar> (1 / 1000000)
            = \<bar>sig_entry (signal_99_105 BUY 0) - sig_stop (signal_99_105 BUY 0)\<bar>)"
proof (intro conjI)
  have t: "sig_timestamp zero_entry_signal \<le> 0" by (simp add: zero_entry_signal_def)
  show "\<exists>tr. simulate_trades default_backtester [ohlc_bar 0 (1 / 2) (3 / 5) (2 / 5)] [zero_entry_signal]
            = Inr [tr]
        \<and> slippage_bps default_backtester \<noteq> 0
        \<and> max \<bar>entry_price tr - stop_price tr\<bar> (1 / 1000000)
            = \<bar>sig_entry zero_entry_signal - sig_stop zero_entry_signal\<bar>"
    unfolding single_row_ledger [OF t]
    by (simp add: close_trade_fields split_beta slippage_default zero_entry_signal_def)
next
  have t: "sig_timestamp floor_risk_signal \<le> 0" by (simp add: floor_risk_signal_def)
  show "\<exists>tr. simulate_trades default_backtester [ohlc_bar 0 1 1 1] [floor_risk_signal]
            = Inr [tr]
        \<and> slippage_bps default_backtester \<noteq> 0
        \<and> max \<bar>entry_price tr - stop_price tr\<bar> (1 / 1000000)
            = \<bar>sig_entry floor_risk_signal - sig_stop floor_risk_signal\<bar>"
    unfolding single_row_ledger [OF t]
    by (simp add: close_trade_fields split_beta slippage_default floor_risk_signal_def)
next
  have t: "sig_timestamp stop_above_entry_signal \<le> 0" by (simp add: stop_above_entry_signal_def)
  show "\<exists>tr. simulate_trades wide_slippage_backtester [ohlc_bar 0 130 131 129] [stop_above_entry_signal]
            = Inr [tr]
        \<and> slippage_bps wide_slippage_backtester \<noteq> 0
        \<and> entry_price tr = 129
        \<and> max \<bar>entry_price tr - stop_price tr\<bar> (1 / 1000000)
            = \<bar>sig_entry stop_above_entry_signal - sig_stop stop_above_entry_signal\<bar>"
    unfolding single_row_ledger [OF t]
    by (simp add: close_trade_fields split_beta wide_slippage_backtester_def
        stop_above_entry_signal_def)
next
  have t: "sig_timestamp (signal_99_105 BUY 0) \<le> 0" by (simp add: signal_99_105_def)
  show "\<exists>tr. simulate_trades price_improving_backtester [ohlc_bar 0 100 104 (199 / 2)] [signal_99_105 BUY 0]
            = Inr [tr]
        \<and> slippage_bps price_improving_backtester \<noteq> 0
        \<and> entry_price tr = 98
        \<and> max \<bar>entry_price tr - stop_price tr\<bar> (1 / 1000000)
            = \<bar>sig_entry (signal_99_105 BUY 0) - sig_stop (signal_99_105 BUY 0)\<bar>"
    unfolding single_row_ledger [OF t]
    by (simp add: close_trade_fields split_beta price_improving_backtester_def signal_99_105_def)
qed

text \<open>
  The BUY signal with entry 100 and stop 99 under the default 5 bps: the trade is entered
  at 100.05, and its denominator is 1.05 where \<open>|signal.entry - stop|\<close> is 1.
\<close>

theorem r_multiple_uses_slipped_entry_witness:
  "\<exists>tr. simulate_trades default_backtester [ohlc_bar 0 100 104 (199 / 2)] [signal_99_105 BUY 0]
            = Inr [tr]
     \<and> side tr = BUY \<and> stop_price tr = 99
     \<and> entry_price tr = 100 * (1 + 5 / 10000)
     \<and> r_multiple tr = pnl tr / max \<bar>entry_price tr - stop_price tr\<bar> (1 / 1000000)
     \<and> slippage_bps default_backtester \<noteq> 0
     \<and> max \<bar>entry_price tr - stop_price tr\<bar> (1 / 1000000) = 21 / 20
     \<and> max \<bar>entry_price tr - stop_price tr\<bar> (1 / 1000000) \<noteq> \<bar>100 - 99\<bar>"
proof -
  have t: "sig_timestamp (signal_99_105 BUY 0) \<le> 0" by (simp add: signal_99_105_def)
  from single_row_ledger [OF t, of default_backtester 100 104 "199 / 2"]
  obtain tr where run: "simulate_trades default_backtester [ohlc_bar 0 100 104 (199 / 2)]
      [signal_99_105 BUY 0] = Inr [tr]"
    by blast
  have "tr \<in> set [tr]" by simp
  from r_multiple_uses_slipped_entry [OF run this]
  have f: "side tr = BUY \<and> stop_price tr = 99
    \<and> entry_price tr = 100 * (1 + 5 / 10000)
    \<and> r_multiple tr = pnl tr / max \<bar>entry_price tr - stop_price tr\<bar> (1 / 1000000)
    \<and> slippage_bps default_backtester \<noteq> 0
    \<and> max \<bar>entry_price tr - stop_price tr\<bar> (1 / 1000000) \<noteq> \<bar>100 - 99\<bar>"
    by (simp add: signal_99_105_def slippage_default)
  then have "max \<bar>entry_price tr - stop_price tr\<bar> (1 / 1000000) = 21 / 20" by simp
  with run f show ?thesis by blast
qed

section \<open>Frames without high or low\<close>

lemma process_bar_fill: "process_bar bt n i (close_only_fill row) st = process_bar bt n i row st"
  by (cases "bar_close row")
    (simp_all add: close_only_fill_def process_bar_def evaluate_exit_def row_get_def
      split: option.splits)

lemma simulate_loop_fill:
  "simulate_loop bt n (enumerate k (map close_only_fill df)) st =
   simulate_loop bt n (enumerate k df) st"
  by (induction df arbitrary: k st) (simp_all add: process_bar_fill split: sum.splits)

lemma process_bar_total:
  assumes "bar_timestamp row \<noteq> None" and "bar_close row \<noteq> None"
  shows "\<exists>st'. process_bar bt n i row st = Inr st'"
  using assms
  by (auto simp: process_bar_def evaluate_exit_def Let_def split: option.splits prod.splits)

lemma simulate_loop_total:
  assumes "\<forall>row\<in>set (map snd rows). bar_timestamp row \<noteq> None \<and> bar_close row \<noteq> None"
  shows "\<exists>st'. simulate_loop bt n rows st = Inr st'"
  using assms
proof (induction rows arbitrary: st)
  case Nil
  then show ?case by simp
next
  case (Cons x rows)
  obtain i row where x: "x = (i, row)" by (cases x)
  with Cons.prems obtain st1 where "process_bar bt n i row st = Inr st1"
    using process_bar_total [of row bt n i st] by auto
  with Cons x show ?case by simp
qed

lemma no_columns_fill: "no_columns (close_only_fill row) = no_columns row"
  by (cases "bar_close row") (simp_all add: close_only_fill_def no_columns_def)

lemma df_empty_fill: "df_empty (map close_only_fill df) = df_empty df"
  by (simp add: df_empty_def list_all_iff no_columns_fill)

text \<open>
  C10. Take a row that has a timestamp and a close \<open>c\<close>, and the position that is open
  when its exit checks run. Whether or not the row has \<open>high\<close> and \<open>low\<close>, the row is
  processed without an error, and its outcome is the one of the stop, target and expiry
  checks run with \<open>c\<close> in the place of each missing \<open>high\<close> or \<open>low\<close>: on a row that has
  neither, a BUY is stopped out when \<open>c\<close> is at or below the stop, else closed at the target
  when \<open>c\<close> is at or above it, else expired on the last row and kept otherwise; a SELL
  likewise with the comparisons mirrored. For whole runs: a frame whose rows all have a
  timestamp and a close never makes the simulator fail, and the ledger is the one of the
  frame in which every missing \<open>high\<close> and \<open>low\<close> is replaced by the row's close. (A row
  lacks a field when the frame has no such column; a NaN cell is not a missing field.)
\<close>

theorem missing_high_low_use_close:
  "(bar_timestamp row = Some ts \<and> bar_close row = Some c
      \<and> open_position (queue_and_enter bt ts st) = Some pos \<longrightarrow>
     process_bar bt n i row st =
       (let low = (case bar_low row of None \<Rightarrow> c | Some l \<Rightarrow> l);
            high = (case bar_high row of None \<Rightarrow> c | Some h \<Rightarrow> h);
            sg = pos_signal pos;
            slip = slippage_bps bt / 10000;
            closed = (\<lambda>reason price.
              Inr ((queue_and_enter bt ts st)\<lparr>open_position := None,
                     trades := trades st @ [close_trade bt pos ts reason price]\<rparr>))
        in if sig_side sg = BUY then
             (if low \<le> sig_stop sg then closed ''stop'' (sig_stop sg * (1 - slip))
              else if sig_target sg \<le> high then closed ''target'' (sig_target sg * (1 - slip))
              else if int i = int n - 1 then closed ''expiry'' (c * (1 - slip))
              else Inr (queue_and_enter bt ts st))
           else
             (if sig_stop sg \<le> high then closed ''stop'' (sig_stop sg * (1 + slip))
              else if low \<le> sig_target sg then closed ''target'' (sig_target sg * (1 + slip))
              else if int i = int n - 1 then closed ''expiry'' (c * (1 + slip))
              else Inr (queue_and_enter bt ts st))))
   \<and> ((\<forall>row\<in>set df. bar_timestamp row \<noteq> None \<and> bar_close row \<noteq> None) \<longrightarrow>
      (\<exists>ledger. simulate_trades bt df signals = Inr ledger))
   \<and> simulate_trades bt (map close_only_fill df) signals = simulate_trades bt df signals"
proof (intro conjI impI)
  assume a: "bar_timestamp row = Some ts \<and> bar_close row = Some c
      \<and> open_position (queue_and_enter bt ts st) = Some pos"
  then have o: "process_bar bt n i row st =
     (case force_expiry n i (sig_side (pos_signal pos)) c (slippage_bps bt / 10000)
             (check_exit (sig_side (pos_signal pos)) (row_get (bar_low row) c)
                (row_get (bar_high row) c) (sig_stop (pos_signal pos))
                (sig_target (pos_signal pos)) (slippage_bps bt / 10000)) of
        None \<Rightarrow> Inr (queue_and_enter bt ts st)
      | Some (reason, exit_p) \<Rightarrow>
          Inr ((queue_and_enter bt ts st)\<lparr>open_position := None,
                 trades := trades st @ [close_trade bt pos ts reason exit_p]\<rparr>))"
    by (intro process_bar_open) simp_all
  show "process_bar bt n i row st =
       (let low = (case bar_low row of None \<Rightarrow> c | Some l \<Rightarrow> l);
            high = (case bar_high row of None \<Rightarrow> c | Some h \<Rightarrow> h);
            sg = pos_signal pos;
            slip = slippage_bps bt / 10000;
            closed = (\<lambda>reason price.
              Inr ((queue_and_enter bt ts st)\<lparr>open_position := None,
                     trades := trades st @ [close_trade bt pos ts reason price]\<rparr>))
        in if sig_side sg = BUY then
             (if low \<le> sig_stop sg then closed ''stop'' (sig_stop sg * (1 - slip))
              else if sig_target sg \<le> high then closed ''target'' (sig_target sg * (1 - slip))
              else if int i = int n - 1 then closed ''expiry'' (c * (1 - slip))
              else Inr (queue_and_enter bt ts st))
           else
             (if sig_stop sg \<le> high then closed ''stop'' (sig_stop sg * (1 + slip))
              else if low \<le> sig_target sg then closed ''target'' (sig_target sg * (1 + slip))
              else if int i = int n - 1 then closed ''expiry'' (c * (1 + slip))
              else Inr (queue_and_enter bt ts st)))"
    unfolding o Let_def
    by (simp add: check_exit_def force_expiry_def row_get_def)
next
  assume a: "\<forall>row\<in>set df. bar_timestamp row \<noteq> None \<and> bar_close row \<noteq> None"
  then have "\<forall>row\<in>set (map snd (enumerate 0 df)). bar_timestamp row \<noteq> None \<and> bar_close row \<noteq> None"
    by simp
  from simulate_loop_total [OF this]
  obtain st' where "simulate_loop bt (length df) (enumerate 0 df) (initial_state signals) = Inr st'"
    by blast
  then show "\<exists>ledger. simulate_trades bt df signals = Inr ledger"
    by (simp add: simulate_trades_def simulate_state_def)
next
  show "simulate_trades bt (map close_only_fill df) signals = simulate_trades bt df signals"
    by (simp add: simulate_trades_def simulate_state_def simulate_loop_fill df_empty_fill)
qed

text \<open>
  Rows with a close and neither \<open>high\<close> nor \<open>low\<close>, and the BUY position with stop 99 and
  target 105. A close of 98 stops the position out, a close of 106 closes it at the target:
  the substituted close decides. In a run over two such rows the first one, with a close of
  98, yields the only trade, a stop at time 0.
\<close>

theorem missing_high_low_use_close_witness:
  "(\<exists>tr. process_bar default_backtester 2 0 (close_only_bar 0 98)
            (initial_state [signal_99_105 BUY 0]) =
          Inr \<lparr>pending = [], open_position = None, trades = [tr]\<rparr>
        \<and> exit_reason tr = ''stop'' \<and> exit_price tr = 99 * (1 - 5 / 10000))
   \<and> (\<exists>tr. process_bar default_backtester 2 0 (close_only_bar 0 106)
            (initial_state [signal_99_105 BUY 0]) =
          Inr \<lparr>pending = [], open_position = None, trades = [tr]\<rparr>
        \<and> exit_reason tr = ''target'' \<and> exit_price tr = 105 * (1 - 5 / 10000))
   \<and> (\<exists>tr. simulate_trades default_backtester
            [close_only_bar 0 98, close_only_bar 60000000000 100] [signal_99_105 BUY 0] = Inr [tr]
        \<and> exit_reason tr = ''stop'' \<and> exit_price tr = 99 * (1 - 5 / 10000)
        \<and> exit_time tr = 0)
   \<and> simulate_trades default_backtester
        [ohlc_bar 0 98 98 98, ohlc_bar 60000000000 100 100 100] [signal_99_105 BUY 0] =
      simulate_trades default_backtester
        [close_only_bar 0 98, close_only_bar 60000000000 100] [signal_99_105 BUY 0]"
proof -
  let ?bt = default_backtester
  let ?st = "initial_state [signal_99_105 BUY 0]"
  let ?pos = "\<lparr>pos_signal = signal_99_105 BUY 0,
       pos_entry_price = (if BUY = BUY then 100 * (1 + 5 / 10000) else 100 * (1 - 5 / 10000)),
       pos_entry_time = 0\<rparr>"
  let ?df = "[close_only_bar 0 98, close_only_bar 60000000000 100]"
  have h: "bar_timestamp (close_only_bar 0 c) = Some 0 \<and> bar_close (close_only_bar 0 c) = Some c
      \<and> open_position (queue_and_enter ?bt 0 ?st) = Some ?pos" for c
    unfolding queue_and_enter_first by (simp add: close_only_bar_def)
  note inst = missing_high_low_use_close [where bt = ?bt and st = ?st and ts = 0 and pos = ?pos
      and n = 2 and i = 0 and signals = "[signal_99_105 BUY 0]" and df = ?df]
  from inst [where row = "close_only_bar 0 98" and c = 98] h [of 98]
  have "process_bar ?bt 2 0 (close_only_bar 0 98) ?st =
      (let low = (case bar_low (close_only_bar 0 98) of None \<Rightarrow> 98 | Some l \<Rightarrow> l);
            high = (case bar_high (close_only_bar 0 98) of None \<Rightarrow> 98 | Some h \<Rightarrow> h);
            sg = pos_signal ?pos;
            slip = slippage_bps ?bt / 10000;
            closed = (\<lambda>reason price.
              Inr ((queue_and_enter ?bt 0 ?st)\<lparr>open_position := None,
                     trades := trades ?st @ [close_trade ?bt ?pos 0 reason price]\<rparr>))
        in if sig_side sg = BUY then
             (if low \<le> sig_stop sg then closed ''stop'' (sig_stop sg * (1 - slip))
              else if sig_target sg \<le> high then closed ''target'' (sig_target sg * (1 - slip))
              else if int 0 = int 2 - 1 then closed ''expiry'' (98 * (1 - slip))
              else Inr (queue_and_enter ?bt 0 ?st))
           else
             (if sig_stop sg \<le> high then closed ''stop'' (sig_stop sg * (1 + slip))
              else if low \<le> sig_target sg then closed ''target'' (sig_target sg * (1 + slip))
              else if int 0 = int 2 - 1 then closed ''expiry'' (98 * (1 + slip))
              else Inr (queue_and_enter ?bt 0 ?st)))"
    by blast
  then have p98: "process_bar ?bt 2 0 (close_only_bar 0 98) ?st =
      Inr \<lparr>pending = [], open_position = None,
           trades = [close_trade ?bt ?pos 0 ''stop'' (99 * (1 - 5 / 10000))]\<rparr>"
    unfolding queue_and_enter_first trades_initial_state slippage_default Let_def
    by (simp add: close_only_bar_def signal_99_105_def)
  from inst [where row = "close_only_bar 0 106" and c = 106] h [of 106]
  have "process_bar ?bt 2 0 (close_only_bar 0 106) ?st =
      (let low = (case bar_low (close_only_bar 0 106) of None \<Rightarrow> 106 | Some l \<Rightarrow> l);
            high = (case bar_high (close_only_bar 0 106) of None \<Rightarrow> 106 | Some h \<Rightarrow> h);
            sg = pos_signal ?pos;
            slip = slippage_bps ?bt / 10000;
            closed = (\<lambda>reason price.
              Inr ((queue_and_enter ?bt 0 ?st)\<lparr>open_position := None,
                     trades := trades ?st @ [close_trade ?bt ?pos 0 reason price]\<rparr>))
        in if sig_side sg = BUY then
             (if low \<le> sig_stop sg then closed ''stop'' (sig_stop sg * (1 - slip))
              else if sig_target sg \<le> high then closed ''target'' (sig_target sg * (1 - slip))
              else if int 0 = int 2 - 1 then closed ''expiry'' (106 * (1 - slip))
              else Inr (queue_and_enter ?bt 0 ?st))
           else
             (if sig_stop sg \<le> high then closed ''stop'' (sig_stop sg * (1 + slip))
              else if low \<le> sig_target sg then closed ''target'' (sig_target sg * (1 + slip))
              else if int 0 = int 2 - 1 then closed ''expiry'' (106 * (1 + slip))
              else Inr (queue_and_enter ?bt 0 ?st)))"
    by blast
  then have p106: "process_bar ?bt 2 0 (close_only_bar 0 106) ?st =
      Inr \<lparr>pending = [], open_position = None,
           trades = [close_trade ?bt ?pos 0 ''target'' (105 * (1 - 5 / 10000))]\<rparr>"
    unfolding queue_and_enter_first trades_initial_state slippage_default Let_def
    by (simp add: close_only_bar_def signal_99_105_def)
  have second: "process_bar ?bt (Suc (Suc 0)) (Suc 0) (close_only_bar 60000000000 100)
        \<lparr>pending = [], open_position = None, trades = trs\<rparr> =
      Inr \<lparr>pending = [], open_position = None, trades = trs\<rparr>" for trs
    by (simp add: process_bar_def evaluate_exit_def queue_and_enter_def enter_position_def
        close_only_bar_def)
  have two: "(2::nat) = Suc (Suc 0)" by simp
  have ne: "\<not> df_empty ?df"
    by (simp add: df_empty_def no_columns_def close_only_bar_def)
  have run: "simulate_trades ?bt ?df [signal_99_105 BUY 0] =
      Inr [close_trade ?bt ?pos 0 ''stop'' (99 * (1 - 5 / 10000))]"
    by (simp add: simulate_trades_def simulate_state_def ne p98 [unfolded two] second)
  have fill: "map close_only_fill ?df = [ohlc_bar 0 98 98 98, ohlc_bar 60000000000 100 100 100]"
    by (simp add: close_only_fill_def close_only_bar_def ohlc_bar_def row_get_def)
  from inst [where row = "close_only_bar 0 98" and c = 98]
  have eq: "simulate_trades ?bt (map close_only_fill ?df) [signal_99_105 BUY 0] =
      simulate_trades ?bt ?df [signal_99_105 BUY 0]"
    by blast
  from p98 have A: "\<exists>tr. process_bar ?bt 2 0 (close_only_bar 0 98) ?st =
          Inr \<lparr>pending = [], open_position = None, trades = [tr]\<rparr>
        \<and> exit_reason tr = ''stop'' \<and> exit_price tr = 99 * (1 - 5 / 10000)"
    by (simp add: close_trade_fields)
  from p106 have B: "\<exists>tr. process_bar ?bt 2 0 (close_only_bar 0 106) ?st =
          Inr \<lparr>pending = [], open_position = None, trades = [tr]\<rparr>
        \<and> exit_reason tr = ''target'' \<and> exit_price tr = 105 * (1 - 5 / 10000)"
    by (simp add: close_trade_fields)
  from run have C: "\<exists>tr. simulate_trades ?bt ?df [signal_99_105 BUY 0] = Inr [tr]
        \<and> exit_reason tr = ''stop'' \<and> exit_price tr = 99 * (1 - 5 / 10000)
        \<and> exit_time tr = 0"
    by (simp add: close_trade_fields)
  from eq have D: "simulate_trades ?bt [ohlc_bar 0 98 98 98, ohlc_bar 60000000000 100 100 100]
        [signal_99_105 BUY 0] = simulate_trades ?bt ?df [signal_99_105 BUY 0]"
    unfolding fill .
  from A B C D show ?thesis by blast
qed

section \<open>Equity curve consistency\<close>

lemma equity_loop_timestamps:
  "fst (equity_loop e ts es ledger) = ts @ map exit_time ledger"
  by (induction ledger arbitrary: e ts es) simp_all

lemma equity_loop_length:
  "length (snd (equity_loop e ts es ledger)) = length es + length ledger"
  by (induction ledger arbitrary: e ts es) simp_all

lemma equity_loop_old:
  "j < length es \<Longrightarrow> snd (equity_loop e ts es ledger) ! j = es ! j"
  by (induction ledger arbitrary: e ts es) (simp_all add: nth_append)

lemma equity_loop_new:
  "i < length ledger \<Longrightarrow>
     snd (equity_loop e ts es ledger) ! (length es + i) =
       e + sum_list (map pnl (take (Suc i) ledger))"
proof (induction ledger arbitrary: e ts es i)
  case Nil
  then show ?case by simp
next
  case (Cons trade rest)
  show ?case
  proof (cases i)
    case 0
    then show ?thesis by (simp add: equity_loop_old)
  next
    case (Suc k)
    with Cons.prems have k: "k < length rest" by simp
    from Cons.IH [OF k, of "e + pnl trade" "ts @ [exit_time trade]" "es @ [e + pnl trade]"]
    show ?thesis using Suc by (simp add: add.assoc)
  qed
qed

lemma equity_curve_single:
  "ec_equity (build_equity_curve bt [tr]) = [initial_equity bt + pnl tr]"
  by (simp add: build_equity_curve_def)

lemma build_equity_curve_nonempty:
  "ledger \<noteq> [] \<Longrightarrow> ec_equity (build_equity_curve bt ledger) \<noteq> []"
  using equity_loop_length [of "initial_equity bt" "[]" "[]" ledger]
  by (auto simp: build_equity_curve_def split: prod.splits)

text \<open>
  C7. The equity curve built from a ledger has one point per trade in both of its columns;
  point \<open>i\<close> carries the exit time of trade \<open>i\<close>, and its equity is the initial equity plus
  the sum of the profits of the trades 0 to \<open>i\<close>.
\<close>

theorem equity_curve_running_sum:
  "length (ec_equity (build_equity_curve bt ledger)) = length ledger
   \<and> length (ec_timestamp (build_equity_curve bt ledger)) = length ledger
   \<and> (\<forall>i<length ledger.
        ec_timestamp (build_equity_curve bt ledger) ! i = exit_time (ledger ! i)
      \<and> ec_equity (build_equity_curve bt ledger) ! i =
          initial_equity bt + sum_list (map pnl (take (Suc i) ledger)))"
proof -
  have ts: "ec_timestamp (build_equity_curve bt ledger) = map exit_time ledger"
    using equity_loop_timestamps [of "initial_equity bt" "[]" "[]" ledger]
    by (auto simp: build_equity_curve_def split: prod.splits)
  have es: "ec_equity (build_equity_curve bt ledger) =
      snd (equity_loop (initial_equity bt) [] [] ledger)"
    by (auto simp: build_equity_curve_def split: prod.splits)
  have "ec_equity (build_equity_curve bt ledger) ! i =
          initial_equity bt + sum_list (map pnl (take (Suc i) ledger))"
    if "i < length ledger" for i
    using equity_loop_new [OF that, of "initial_equity bt" "[]" "[]"] by (simp add: es)
  then show ?thesis by (simp add: ts es equity_loop_length)
qed

text \<open>Two trades with profits 4 and -1 on 100000 of equity: the second point is 100003.\<close>

theorem equity_curve_running_sum_witness:
  "length (ec_equity (build_equity_curve default_backtester [trade_with 4 2 0, trade_with (- 1) (- 1) 1])) = 2
   \<and> ec_timestamp (build_equity_curve default_backtester [trade_with 4 2 0, trade_with (- 1) (- 1) 1]) ! 1 = 1
   \<and> ec_equity (build_equity_curve default_backtester [trade_with 4 2 0, trade_with (- 1) (- 1) 1]) ! 1 = 100003"
proof -
  let ?l = "[trade_with 4 2 0, trade_with (- 1) (- 1) 1]"
  note r = equity_curve_running_sum [of default_backtester ?l]
  from r have 1: "length (ec_equity (build_equity_curve default_backtester ?l)) = 2" by simp
  from r have "1 < length ?l \<longrightarrow>
        ec_timestamp (build_equity_curve default_backtester ?l) ! 1 = exit_time (?l ! 1)
      \<and> ec_equity (build_equity_curve default_backtester ?l) ! 1 =
          initial_equity default_backtester + sum_list (map pnl (take (Suc 1) ?l))"
    by blast
  then have "ec_timestamp (build_equity_curve default_backtester ?l) ! 1 = 1
      \<and> ec_equity (build_equity_curve default_backtester ?l) ! 1 = 100003"
    by (simp add: trade_with_def default_backtester_def)
  with 1 show ?thesis by blast
qed

section \<open>The metrics, field by field\<close>

lemma foldl_fadd_Finite: "foldl fadd (Finite a) (map Finite xs) = Finite (a + sum_list xs)"
  by (induction xs arbitrary: a) (simp_all add: add.assoc)

lemma np_sum_Finite: "np_sum (map Finite xs) = Finite (sum_list xs)"
  by (simp add: np_sum_def foldl_fadd_Finite)

lemma np_mean_Finite:
  "xs \<noteq> [] \<Longrightarrow> np_mean (map Finite xs) = Finite (sum_list xs / real (length xs))"
  by (simp add: np_mean_def np_sum_Finite)

lemma mean_of_eq:
  "mean_of xs = (if xs = [] then NaN else Finite (sum_list xs / real (length xs)))"
  by (simp add: mean_of_def np_mean_def np_sum_Finite)

lemma compute_metrics_fields:
  assumes "compute_metrics bt ledger curve = Inr m" and "ledger \<noteq> []"
  shows "ec_equity curve \<noteq> []"
    and "cagr m = metric_cagr bt ledger (last (ec_equity curve))"
    and "sharpe m = metric_sharpe bt ledger"
    and "mar m = (let v = metric_mar (metric_cagr bt ledger (last (ec_equity curve)))
                             (metric_max_dd (ec_equity curve))
                  in if isfinite v then v else Finite 0)"
    and "max_drawdown m = metric_max_dd (ec_equity curve)"
    and "win_rate m = metric_win_rate ledger"
    and "payoff m = (let v = metric_payoff ledger in if isfinite v then v else Finite 0)"
    and "expectancy m = mean_of (map pnl ledger)"
    and "exposure m = metric_exposure ledger"
    and "cvar_95 m = metric_cvar ledger"
  using assms by (auto simp: compute_metrics_def Let_def split: if_splits)

lemma compute_metrics_Inr:
  "\<exists>m. compute_metrics bt ledger (build_equity_curve bt ledger) = Inr m"
  by (cases "ledger = []") (simp_all add: compute_metrics_def Let_def build_equity_curve_nonempty)

section \<open>Empty inputs\<close>

text \<open>
  C5. With no signals or no rows the simulation returns the empty ledger, not an error. The
  equity curve of the empty ledger is empty, and its metrics are the nine zeros.
\<close>

theorem empty_input_gives_zero_metrics:
  "(signals = [] \<or> df = [] \<longrightarrow> simulate_trades bt df signals = Inr [])
   \<and> build_equity_curve bt [] = \<lparr>ec_timestamp = [], ec_equity = []\<rparr>
   \<and> compute_metrics bt [] (build_equity_curve bt []) =
       Inr \<lparr>cagr = Finite 0, sharpe = Finite 0, mar = Finite 0, max_drawdown = Finite 0,
            win_rate = Finite 0, payoff = Finite 0, expectancy = Finite 0,
            exposure = Finite 0, cvar_95 = Finite 0\<rparr>"
  by (auto simp: simulate_trades_def df_empty_def build_equity_curve_def compute_metrics_def)

text \<open>One row and no signal; one signal and no row.\<close>

theorem empty_input_gives_zero_metrics_witness:
  "simulate_trades default_backtester [ohlc_bar 0 100 106 98] [] = Inr []
   \<and> simulate_trades default_backtester [] [signal_99_105 BUY 0] = Inr []"
  using empty_input_gives_zero_metrics [of "[]" "[ohlc_bar 0 100 106 98]" default_backtester]
    empty_input_gives_zero_metrics [of "[signal_99_105 BUY 0]" "[]" default_backtester]
  by simp

section \<open>The tail mean \<open>cvar_95\<close>\<close>

lemma cvar_cutoff_eq: "cvar_cutoff n = int (max (n div 20) 1)"
proof (cases "20 \<le> n")
  case True
  then have "1 \<le> real n * (5 / 100)" by simp
  then have "max (real n * (5 / 100)) 1 = real n / real 20" by (simp add: max_def)
  then have "cvar_cutoff n = int (n div 20)"
    unfolding cvar_cutoff_def by (simp only: floor_divide_of_nat_eq)
  moreover from True have "1 \<le> n div 20" by (simp add: less_eq_div_iff_mult_less_eq)
  ultimately show ?thesis by (simp add: max_def)
next
  case False
  then have "real n * (5 / 100) < 1" by simp
  then have "max (real n * (5 / 100)) 1 = 1" by (simp add: max_def)
  moreover from False have "n div 20 = 0" by simp
  ultimately show ?thesis by (simp add: cvar_cutoff_def)
qed

lemma metric_cvar_eq:
  assumes "ledger \<noteq> []"
  shows "metric_cvar ledger =
     Finite (sum_list (take (max (length ledger div 20) 1) (sort (map r_multiple ledger)))
             / real (max (length ledger div 20) 1))"
proof -
  let ?k = "max (length ledger div 20) 1"
  have le: "?k \<le> length ledger" using assms by (cases ledger) (simp_all add: max_def)
  then have len: "length (take ?k (sort (map r_multiple ledger))) = ?k" by simp
  have ne: "take ?k (sort (map r_multiple ledger)) \<noteq> []"
    using len by (metis length_0_conv max_nat.eq_neutr_iff zero_neq_one)
  show ?thesis
    unfolding metric_cvar_def Let_def
    by (simp only: length_sort length_map cvar_cutoff_eq nat_int mean_of_eq ne len if_False)
       (simp add: max_def)
qed

text \<open>
  C2 (amended). For a non-empty ledger of \<open>n\<close> trades the metrics of the ledger and its
  equity curve are returned without an error. The slice size computed by line 250 is
  \<open>max(n div 20, 1)\<close>, that is 5% of the count truncated, not rounded, and at least 1; and
  \<open>cvar_95\<close> is the mean of that many of the smallest R-multiples.
\<close>

theorem cvar_is_mean_of_truncated_tail:
  assumes "ledger \<noteq> []"
  shows "(\<exists>m. compute_metrics bt ledger (build_equity_curve bt ledger) = Inr m)
    \<and> cvar_cutoff (length ledger) = int (max (length ledger div 20) 1)
    \<and> (\<forall>curve m. compute_metrics bt ledger curve = Inr m \<longrightarrow>
          cvar_95 m =
            Finite (sum_list (take (max (length ledger div 20) 1) (sort (map r_multiple ledger)))
                    / real (max (length ledger div 20) 1)))"
proof (intro conjI allI impI)
  show "\<exists>m. compute_metrics bt ledger (build_equity_curve bt ledger) = Inr m"
    by (rule compute_metrics_Inr)
next
  show "cvar_cutoff (length ledger) = int (max (length ledger div 20) 1)"
    by (rule cvar_cutoff_eq)
next
  fix curve m
  assume "compute_metrics bt ledger curve = Inr m"
  from compute_metrics_fields(10) [OF this assms] metric_cvar_eq [OF assms]
  show "cvar_95 m =
      Finite (sum_list (take (max (length ledger div 20) 1) (sort (map r_multiple ledger)))
              / real (max (length ledger div 20) 1))"
    by simp
qed

lemma r_multiple_ledger_of_r: "map r_multiple (ledger_of_r rs) = map real_of_int rs"
  by (simp add: ledger_of_r_def trade_with_def)

lemma sort_real_upto: "sort (map real_of_int [i..j]) = map real_of_int [i..j]"
proof (rule sorted_sort_id)
  have "sorted_wrt (\<lambda>x y. real_of_int x \<le> real_of_int y) [i..j]"
    using sorted_upto [of i j] by (rule sorted_wrt_mono_rel [rotated]) simp
  then show "sorted (map real_of_int [i..j])" by (simp add: sorted_map)
qed

lemma metric_cvar_upto:
  "metric_cvar (ledger_of_r [i..j]) =
     (if cvar_cutoff (nat (j - i + 1)) > 0
      then mean_of (take (nat (cvar_cutoff (nat (j - i + 1)))) (map real_of_int [i..j]))
      else Finite (hd (map real_of_int [i..j])))"
  by (simp add: metric_cvar_def r_multiple_ledger_of_r sort_real_upto Let_def)

text \<open>
  C2 as stated fails on a ledger of 35 trades with the R-multiples -3, -2, ..., 31: 5% of 35
  is 1.75, which rounds to 2 and truncates to 1. The code reports -3, the mean of the worst
  one; the mean of the worst two is -2.5.
\<close>

theorem cvar_rounding_counterexample:
  "(\<exists>m. compute_metrics default_backtester (ledger_of_r [- 3..31])
           (build_equity_curve default_backtester (ledger_of_r [- 3..31])) = Inr m
       \<and> cvar_95 m = Finite (- 3))
   \<and> spec_cvar_95 (ledger_of_r [- 3..31]) = Finite (- 5 / 2)"
proof
  have ne: "ledger_of_r [- 3..31] \<noteq> []" by (simp add: ledger_of_r_def)
  from compute_metrics_Inr obtain m where
    m: "compute_metrics default_backtester (ledger_of_r [- 3..31])
           (build_equity_curve default_backtester (ledger_of_r [- 3..31])) = Inr m"
    by blast
  have c: "cvar_cutoff 35 = 1" by (simp add: cvar_cutoff_eq)
  have t: "take (Suc 0) (map real_of_int [- 3..31]) = [- 3]"
    by (simp add: take_map upto_rec1)
  have "metric_cvar (ledger_of_r [- 3..31]) = Finite (- 3)"
    unfolding metric_cvar_upto by (simp add: c t mean_of_eq)
  with compute_metrics_fields(10) [OF m ne] have "cvar_95 m = Finite (- 3)" by simp
  with m show "\<exists>m. compute_metrics default_backtester (ledger_of_r [- 3..31])
           (build_equity_curve default_backtester (ledger_of_r [- 3..31])) = Inr m
       \<and> cvar_95 m = Finite (- 3)"
    by blast
next
  have r: "py_round (35 * (5 / 100)) = 2" by (simp add: py_round_def Let_def)
  have t: "take 2 (map real_of_int [- 3..31]) = [- 3, - 2]"
    by (simp add: take_map upto_rec1 numeral_2_eq_2)
  have l: "real (length (ledger_of_r [- 3..31])) = 35" by (simp add: ledger_of_r_def)
  show "spec_cvar_95 (ledger_of_r [- 3..31]) = Finite (- 5 / 2)"
    unfolding spec_cvar_95_def l r r_multiple_ledger_of_r sort_real_upto
    by (simp add: t mean_of_eq)
qed

text \<open>The ten R-multiples -3, ..., 6 of the specification: a slice of one and \<open>cvar_95 = -3\<close>.\<close>

theorem cvar_is_mean_of_truncated_tail_witness:
  "\<exists>m. compute_metrics default_backtester (ledger_of_r [- 3..6])
           (build_equity_curve default_backtester (ledger_of_r [- 3..6])) = Inr m
     \<and> cvar_cutoff 10 = 1 \<and> cvar_95 m = Finite (- 3)"
proof -
  have ne: "ledger_of_r [- 3..6] \<noteq> []" by (simp add: ledger_of_r_def)
  note r = cvar_is_mean_of_truncated_tail [OF ne, of default_backtester]
  from r obtain m where
    m: "compute_metrics default_backtester (ledger_of_r [- 3..6])
           (build_equity_curve default_backtester (ledger_of_r [- 3..6])) = Inr m"
    by blast
  have l: "length (ledger_of_r [- 3..6]) = 10" by (simp add: ledger_of_r_def)
  have t: "take (Suc 0) (map real_of_int [- 3..6]) = [- 3]"
    by (simp add: take_map upto_rec1)
  from r m have "cvar_cutoff (length (ledger_of_r [- 3..6])) =
        int (max (length (ledger_of_r [- 3..6]) div 20) 1)
      \<and> cvar_95 m =
          Finite (sum_list (take (max (length (ledger_of_r [- 3..6]) div 20) 1)
                    (sort (map r_multiple (ledger_of_r [- 3..6]))))
                  / real (max (length (ledger_of_r [- 3..6]) div 20) 1))"
    by blast
  then have "cvar_cutoff 10 = 1 \<and> cvar_95 m = Finite (- 3)"
    unfolding l r_multiple_ledger_of_r sort_real_upto by (simp add: t)
  with m show ?thesis by blast
qed

section \<open>A drawdown that is not a number\<close>

lemma stop_100_run:
  "simulate_trades (frictionless_backtester e) [ohlc_bar 0 150 160 100] [stop_100_signal] =
     Inr [close_trade (frictionless_backtester e)
            \<lparr>pos_signal = stop_100_signal, pos_entry_price = 200, pos_entry_time = 0\<rparr>
            0 ''stop'' 100]"
proof -
  have t: "sig_timestamp stop_100_signal \<le> 0" by (simp add: stop_100_signal_def)
  show ?thesis
    unfolding single_row_ledger [OF t]
    by (simp add: stop_100_signal_def frictionless_backtester_def check_exit_def)
qed

lemma stop_100_pnl:
  "pnl (close_trade (frictionless_backtester e)
            \<lparr>pos_signal = stop_100_signal, pos_entry_price = 200, pos_entry_time = 0\<rparr>
            0 ''stop'' 100) = - 100"
  by (simp add: close_trade_def Let_def stop_100_signal_def frictionless_backtester_def)

text \<open>
  C4. The claim that every field other than \<open>cagr\<close> is finite fails in the code: only
  \<open>mar\<close> and \<open>payoff\<close> pass through \<open>np.isfinite\<close>. Take an initial equity of 100, no
  commission and no slippage, one row with close 150, high 160 and low 100, and a BUY signal
  with entry 200, stop 100 and target 400. The run yields one trade, stopped out with a loss
  of 100; the equity curve is \<open>[0]\<close>, its running peak is 0, the drawdown is \<open>0 / 0\<close>, and
  \<open>max_drawdown\<close> is reported as NaN, while \<open>mar\<close>, set to NaN on the same run, is replaced
  by 0.0.
\<close>

theorem max_drawdown_nan_on_total_loss:
  "\<exists>tr m. simulate_trades (frictionless_backtester 100) [ohlc_bar 0 150 160 100]
             [stop_100_signal] = Inr [tr]
      \<and> pnl tr = - 100
      \<and> ec_equity (build_equity_curve (frictionless_backtester 100) [tr]) = [0]
      \<and> compute_metrics (frictionless_backtester 100) [tr]
           (build_equity_curve (frictionless_backtester 100) [tr]) = Inr m
      \<and> max_drawdown m = NaN \<and> \<not> isfinite (max_drawdown m)
      \<and> mar m = Finite 0"
proof -
  let ?bt = "frictionless_backtester 100"
  let ?tr = "close_trade ?bt
            \<lparr>pos_signal = stop_100_signal, pos_entry_price = 200, pos_entry_time = 0\<rparr>
            0 ''stop'' 100"
  obtain m where m: "compute_metrics ?bt [?tr] (build_equity_curve ?bt [?tr]) = Inr m"
    using compute_metrics_Inr [of ?bt "[?tr]"] by blast
  have ne: "[?tr] \<noteq> []" by simp
  have eq: "ec_equity (build_equity_curve ?bt [?tr]) = [0]"
    unfolding equity_curve_single stop_100_pnl by (simp add: frictionless_backtester_def)
  then have dd: "metric_max_dd (ec_equity (build_equity_curve ?bt [?tr])) = NaN"
    by (simp add: metric_max_dd_def)
  with compute_metrics_fields(5) [OF m ne] have md: "max_drawdown m = NaN" by simp
  have "metric_mar c NaN = NaN" for c
    by (simp add: metric_mar_def)
  with compute_metrics_fields(4) [OF m ne] dd have ma: "mar m = Finite 0"
    by (simp add: Let_def)
  from stop_100_run [of 100] stop_100_pnl [of 100] eq m md ma show ?thesis
    by (intro exI [of _ ?tr] exI [of _ m]) simp
qed

section \<open>One trade per labelled row\<close>














end
